theory Spec2Isabelle
  imports Main "HOL-Library.Word"
begin

unbundle bit_operations_syntax

section \<open>Errors\<close>

text \<open>
  Go errors are values. The sentinels below are the package-level error variables the
  three source files compare against with \<^verbatim>\<open>errors.Is\<close>; \<open>Other\<close> is any other
  error of a collaborator, and \<open>Wrapf\<close> is an error built at run time by
  \<^verbatim>\<open>fmt.Errorf\<close> with one \<^verbatim>\<open>%w\<close> verb: the format string, the string arguments
  of the other verbs, and the wrapped error. Arguments printed through a \<^verbatim>\<open>String()\<close>
  method that is not in the source, and numeric arguments, are not recorded.

  The two variables of package \<^verbatim>\<open>group\<close>,
  \<^verbatim>\<open>ErrRBDGroupNotConnected = fmt.Errorf("%w: RBD group is not connected", librados.ErrNotConnected)\<close>
  and
  \<^verbatim>\<open>ErrRBDGroupNotFound = fmt.Errorf("%w: RBD group not found", librbd.ErrNotFound)\<close>,
  are values made once: each is a sentinel of its own that wraps the library's sentinel.
\<close>

datatype error =
    ErrCloneInProgress
  | ErrClonePending
  | ErrInvalidClone
  | ErrCloneFailed
  | librados_ErrNotConnected
  | librados_ErrNotFound
  | librbd_ErrNotFound
  | librbd_ErrExist
  | librbd_ErrNotExist
  | ErrImageInUse
  | ErrRBDGroupNotConnected
  | ErrRBDGroupNotFound
  | Other string
  | Wrapf string "string list" error

text \<open>
  \<^verbatim>\<open>errors.Is\<close>: the target is the error itself or is reached by unwrapping. Go
  compares the values made by \<^verbatim>\<open>fmt.Errorf\<close> by identity, and every target in the
  source is a package-level variable: an error built at run time is a new value, never
  one of them, so it matches through the error it wraps only. The two sentinels of
  package \<^verbatim>\<open>group\<close> match themselves and the library sentinel they wrap.
\<close>

fun errors_Is :: "error \<Rightarrow> error \<Rightarrow> bool" where
  "errors_Is (Wrapf f args e) target = errors_Is e target"
| "errors_Is ErrRBDGroupNotConnected target =
     (target = ErrRBDGroupNotConnected \<or> target = librados_ErrNotConnected)"
| "errors_Is ErrRBDGroupNotFound target =
     (target = ErrRBDGroupNotFound \<or> target = librbd_ErrNotFound)"
| "errors_Is e target = (e = target)"

text \<open>
  Modelled from the spec: \<^verbatim>\<open>cerrors.IsCloneRetryError\<close> (package
  \<^verbatim>\<open>internal/cephfs/errors\<close>) is not among the source files. The specification names
  the retryable errors: CloneInProgress and ClonePending.
\<close>

definition IsCloneRetryError :: "error \<Rightarrow> bool" where
  "IsCloneRetryError err \<longleftrightarrow> errors_Is err ErrCloneInProgress \<or> errors_Is err ErrClonePending"

section \<open>Clone state and its classification\<close>

text \<open>
  \<^verbatim>\<open>admin.CloneState\<close> of go-ceph is a string type; the four constants are the
  states go-ceph names. The backend reports the state as text, so any string can arrive.
\<close>

type_synonym CloneState = string

definition CloneComplete :: CloneState where "CloneComplete = ''complete''"
definition CloneInProgress :: CloneState where "CloneInProgress = ''in-progress''"
definition ClonePending :: CloneState where "ClonePending = ''pending''"
definition CloneFailed :: CloneState where "CloneFailed = ''failed''"

record CloneProgressReport =
  PercentageCloned :: string
  AmountCloned :: string
  FilesCloned :: string

record cephFSCloneState =
  state :: CloneState
  progressReport :: CloneProgressReport
  errno :: string
  errorMsg :: string

text \<open>\<^verbatim>\<open>var CephFSCloneError = &cephFSCloneState{}\<close>: every field has its zero value.\<close>

definition CephFSCloneError :: cephFSCloneState where
  "CephFSCloneError =
     \<lparr>state = [],
      progressReport = \<lparr>PercentageCloned = [], AmountCloned = [], FilesCloned = []\<rparr>,
      errno = [], errorMsg = []\<rparr>"

text \<open>
  \<^verbatim>\<open>ToError\<close>: a Go \<^verbatim>\<open>switch\<close> takes the first case that is equal, in the order
  written, and the function returns \<^verbatim>\<open>nil\<close> after the switch when no case matched.
\<close>

definition ToError :: "cephFSCloneState \<Rightarrow> error option" where
  "ToError cs =
     (if state cs = CloneComplete then None
      else if state cs = state CephFSCloneError then
        Some (Wrapf ''%w: %s (%s)'' [errorMsg cs, errno cs] ErrInvalidClone)
      else if state cs = CloneInProgress then Some ErrCloneInProgress
      else if state cs = ClonePending then Some ErrClonePending
      else if state cs = CloneFailed then
        Some (Wrapf ''%w: %s (%s)'' [errorMsg cs, errno cs] ErrCloneFailed)
      else None)"

definition GetProgressReport :: "cephFSCloneState \<Rightarrow> CloneProgressReport" where
  "GetProgressReport cs =
     \<lparr>PercentageCloned = PercentageCloned (progressReport cs),
      AmountCloned = AmountCloned (progressReport cs),
      FilesCloned = FilesCloned (progressReport cs)\<rparr>"

text \<open>A clone state the backend reports for a cancelled clone; go-ceph has no constant for it.\<close>

definition canceled_state :: cephFSCloneState where
  "canceled_state =
     \<lparr>state = ''canceled'',
      progressReport = \<lparr>PercentageCloned = [], AmountCloned = [], FilesCloned = []\<rparr>,
      errno = ''125'', errorMsg = ''clone canceled''\<rparr>"

section \<open>The backend as explicit state\<close>

text \<open>
  Every call that leaves the process (storage backend, journal, resolver, lock table) is a
  function on an abstract world \<open>'w\<close> that returns its result with the new world. The
  model threads the world together with a log of the calls made, each with its arguments
  and its result, so that what an operation did can be read off the log.
\<close>

definition call :: "('w \<Rightarrow> 'a \<times> 'w) \<Rightarrow> ('a \<Rightarrow> 'e) \<Rightarrow> 'w \<times> 'e list \<Rightarrow> 'a \<times> 'w \<times> 'e list" where
  "call f ev \<sigma> = (case f (fst \<sigma>) of (r, w') \<Rightarrow> (r, (w', snd \<sigma> @ [ev r])))"

definition emit :: "'e \<Rightarrow> 'w \<times> 'e list \<Rightarrow> 'w \<times> 'e list" where
  "emit e \<sigma> = (fst \<sigma>, snd \<sigma> @ [e])"

section \<open>CephFS: clone orchestration\<close>

record SubVolume =
  VolID :: string
  FsName :: string
  SubvolumeGroup :: string
  Size :: int

text \<open>
  Modelled from the spec: \<^verbatim>\<open>NewSnapshot\<close> and the \<^verbatim>\<open>Snapshot\<close> type of package
  \<^verbatim>\<open>core\<close> are not among the source files. A snapshot (client) is the snapshot
  identifier together with the subvolume it belongs to.
\<close>

record Snapshot =
  SnapshotID :: string
  SnapSubVolume :: SubVolume

definition NewSnapshot :: "string \<Rightarrow> SubVolume \<Rightarrow> Snapshot" where
  "NewSnapshot snapshotID volOptions = \<lparr>SnapshotID = snapshotID, SnapSubVolume = volOptions\<rparr>"

text \<open>go-ceph's \<^verbatim>\<open>admin.CloneStatus\<close>; \<^verbatim>\<open>GetFailure()\<close> is \<^verbatim>\<open>nil\<close> or the failure.\<close>

record CloneFailure =
  Errno :: string
  ErrStr :: string

record CloneStatus =
  State :: CloneState
  ProgressReport :: CloneProgressReport
  GetFailure :: "CloneFailure option"

record 'w fs_backend =
  CreateSnapshot_op :: "Snapshot \<Rightarrow> 'w \<Rightarrow> error option \<times> 'w"
  CloneSnapshot_op :: "Snapshot \<Rightarrow> SubVolume \<Rightarrow> 'w \<Rightarrow> error option \<times> 'w"
  DeleteSnapshot_op :: "Snapshot \<Rightarrow> 'w \<Rightarrow> error option \<times> 'w"
  GetFSAdmin_op :: "'w \<Rightarrow> error option \<times> 'w"
  CloneStatus_op :: "string \<Rightarrow> string \<Rightarrow> string \<Rightarrow> 'w \<Rightarrow> (error + CloneStatus) \<times> 'w"
  PurgeVolume_op :: "SubVolume \<Rightarrow> bool \<Rightarrow> 'w \<Rightarrow> error option \<times> 'w"
  ExpandVolume_op :: "SubVolume \<Rightarrow> int \<Rightarrow> 'w \<Rightarrow> error option \<times> 'w"

text \<open>
  The log of the CephFS operations: snapshot calls carry the snapshot identifier and the
  identifier of the subvolume the snapshot is on, volume calls the volume identifier.
\<close>

datatype fs_event =
    CreateSnapshot_call string string "error option"
  | CloneSnapshot_call string string string "error option"
  | DeleteSnapshot_call string string "error option"
  | GetFSAdmin_call "error option"
  | CloneStatus_call string string string "error + CloneStatus"
  | PurgeVolume_call string bool "error option"
  | ExpandVolume_call string int "error option"
  | ErrorLog string

type_synonym 'w fs_state = "'w \<times> fs_event list"

definition CreateSnapshot :: "'w fs_backend \<Rightarrow> Snapshot \<Rightarrow> 'w fs_state \<Rightarrow> error option \<times> 'w fs_state" where
  "CreateSnapshot B snapClient =
     call (CreateSnapshot_op B snapClient)
       (CreateSnapshot_call (SnapshotID snapClient) (VolID (SnapSubVolume snapClient)))"

definition CloneSnapshot ::
  "'w fs_backend \<Rightarrow> Snapshot \<Rightarrow> SubVolume \<Rightarrow> 'w fs_state \<Rightarrow> error option \<times> 'w fs_state" where
  "CloneSnapshot B snapClient cloneVol =
     call (CloneSnapshot_op B snapClient cloneVol)
       (CloneSnapshot_call (SnapshotID snapClient) (VolID (SnapSubVolume snapClient)) (VolID cloneVol))"

definition DeleteSnapshot :: "'w fs_backend \<Rightarrow> Snapshot \<Rightarrow> 'w fs_state \<Rightarrow> error option \<times> 'w fs_state" where
  "DeleteSnapshot B snapClient =
     call (DeleteSnapshot_op B snapClient)
       (DeleteSnapshot_call (SnapshotID snapClient) (VolID (SnapSubVolume snapClient)))"

definition PurgeVolume :: "'w fs_backend \<Rightarrow> SubVolume \<Rightarrow> bool \<Rightarrow> 'w fs_state \<Rightarrow> error option \<times> 'w fs_state" where
  "PurgeVolume B s force = call (PurgeVolume_op B s force) (PurgeVolume_call (VolID s) force)"

definition ExpandVolume :: "'w fs_backend \<Rightarrow> SubVolume \<Rightarrow> int \<Rightarrow> 'w fs_state \<Rightarrow> error option \<times> 'w fs_state" where
  "ExpandVolume B s bytesQuota = call (ExpandVolume_op B s bytesQuota) (ExpandVolume_call (VolID s) bytesQuota)"

text \<open>\<^verbatim>\<open>GetCloneState\<close>: on either failure the sentinel state is returned with the error.\<close>

definition GetCloneState ::
  "'w fs_backend \<Rightarrow> SubVolume \<Rightarrow> 'w fs_state \<Rightarrow> (cephFSCloneState \<times> error option) \<times> 'w fs_state" where
  "GetCloneState B s \<sigma> =
     (case call (GetFSAdmin_op B) GetFSAdmin_call \<sigma> of
        (Some err, \<sigma>1) \<Rightarrow>
          ((CephFSCloneError, Some err), emit (ErrorLog ''could not get FSAdmin'') \<sigma>1)
      | (None, \<sigma>1) \<Rightarrow>
          (case call (CloneStatus_op B (FsName s) (SubvolumeGroup s) (VolID s))
                  (CloneStatus_call (FsName s) (SubvolumeGroup s) (VolID s)) \<sigma>1 of
             (Inl err, \<sigma>2) \<Rightarrow>
               ((CephFSCloneError, Some err), emit (ErrorLog ''could not get clone state'') \<sigma>2)
           | (Inr cs, \<sigma>2) \<Rightarrow>
               (let errno = (case GetFailure cs of None \<Rightarrow> [] | Some failure \<Rightarrow> Errno failure);
                    errStr = (case GetFailure cs of None \<Rightarrow> [] | Some failure \<Rightarrow> ErrStr failure)
                in ((\<lparr>state = State cs, progressReport = ProgressReport cs,
                       errno = errno, errorMsg = errStr\<rparr>, None), \<sigma>2))))"

text \<open>
  \<^verbatim>\<open>CreateCloneFromSubvolume\<close>, in two parts. The first part is the statements of the
  function in the order written, up to its \<^verbatim>\<open>return\<close>: it gives the returned error,
  whether the \<^verbatim>\<open>defer\<close> statement had been executed, and the state. The function has
  an unnamed result, so the value of a \<^verbatim>\<open>return err\<close> is fixed before the deferred
  closure runs; at every \<^verbatim>\<open>return\<close> the variable \<^verbatim>\<open>err\<close> holds the value returned.
\<close>

definition CreateCloneFromSubvolume_main ::
  "'w fs_backend \<Rightarrow> SubVolume \<Rightarrow> SubVolume \<Rightarrow> 'w fs_state \<Rightarrow> error option \<times> bool \<times> 'w fs_state" where
  "CreateCloneFromSubvolume_main B s parentvolOpt \<sigma> =
     (let snapshotID = VolID s;
          snapClient = NewSnapshot snapshotID parentvolOpt
      in case CreateSnapshot B snapClient \<sigma> of
        (Some err, \<sigma>1) \<Rightarrow> (Some err, False, emit (ErrorLog ''failed to create snapshot'') \<sigma>1)
      | (None, \<sigma>1) \<Rightarrow>
      (case CloneSnapshot B snapClient s \<sigma>1 of
        (Some err, \<sigma>2) \<Rightarrow> (Some err, True, emit (ErrorLog ''failed to clone snapshot'') \<sigma>2)
      | (None, \<sigma>2) \<Rightarrow>
      (case GetCloneState B s \<sigma>2 of
        ((cloneState, Some err), \<sigma>3) \<Rightarrow>
          (Some err, True, emit (ErrorLog ''failed to get clone state'') \<sigma>3)
      | ((cloneState, None), \<sigma>3) \<Rightarrow>
      (case ToError cloneState of
        Some err \<Rightarrow> (Some err, True, emit (ErrorLog ''clone did not complete'') \<sigma>3)
      | None \<Rightarrow>
      (case ExpandVolume B s (Size s) \<sigma>3 of
        (Some err, \<sigma>4) \<Rightarrow> (Some err, True, emit (ErrorLog ''failed to expand volume'') \<sigma>4)
      | (None, \<sigma>4) \<Rightarrow>
      (case DeleteSnapshot B snapClient \<sigma>4 of
        (Some err, \<sigma>5) \<Rightarrow> (Some err, True, emit (ErrorLog ''failed to delete snapshot'') \<sigma>5)
      | (None, \<sigma>5) \<Rightarrow> (None, True, \<sigma>5)))))))"

text \<open>
  The deferred closure. It reads the variable \<^verbatim>\<open>err\<close> and assigns the results of the
  purge and of the snapshot deletion to that same variable; the two \<^verbatim>\<open>if\<close> statements
  follow one another, so the snapshot is deleted whatever the purge returned. The closure
  gives back the final value of the variable with the state.
\<close>

definition CreateCloneFromSubvolume_deferred ::
  "'w fs_backend \<Rightarrow> SubVolume \<Rightarrow> Snapshot \<Rightarrow> error option \<Rightarrow> 'w fs_state \<Rightarrow> error option \<times> 'w fs_state" where
  "CreateCloneFromSubvolume_deferred B s snapClient err \<sigma> =
     (case err of
        None \<Rightarrow> (err, \<sigma>)
      | Some e \<Rightarrow>
          if IsCloneRetryError e then (err, \<sigma>)
          else (case PurgeVolume B s True \<sigma> of (err1, \<sigma>1) \<Rightarrow>
            (let \<sigma>1' = (if err1 \<noteq> None then emit (ErrorLog ''failed to delete volume'') \<sigma>1 else \<sigma>1)
             in case DeleteSnapshot B snapClient \<sigma>1' of (err2, \<sigma>2) \<Rightarrow>
               (err2, if err2 \<noteq> None then emit (ErrorLog ''failed to delete snapshot'') \<sigma>2 else \<sigma>2))))"

text \<open>The whole function: the result is the value of the \<^verbatim>\<open>return\<close>, not the variable.\<close>

definition CreateCloneFromSubvolume ::
  "'w fs_backend \<Rightarrow> SubVolume \<Rightarrow> SubVolume \<Rightarrow> 'w fs_state \<Rightarrow> error option \<times> 'w fs_state" where
  "CreateCloneFromSubvolume B s parentvolOpt \<sigma> =
     (case CreateCloneFromSubvolume_main B s parentvolOpt \<sigma> of
        (ret, registered, \<sigma>') \<Rightarrow>
          if registered
          then (ret, snd (CreateCloneFromSubvolume_deferred B s
                            (NewSnapshot (VolID s) parentvolOpt) ret \<sigma>'))
          else (ret, \<sigma>'))"

definition CleanupSnapshotFromSubvolume ::
  "'w fs_backend \<Rightarrow> SubVolume \<Rightarrow> SubVolume \<Rightarrow> 'w fs_state \<Rightarrow> error option \<times> 'w fs_state" where
  "CleanupSnapshotFromSubvolume B s parentVol \<sigma> =
     (let snapShotID = VolID s;
          snapClient = NewSnapshot snapShotID parentVol
      in case DeleteSnapshot B snapClient \<sigma> of
        (Some err, \<sigma>1) \<Rightarrow> (Some err, emit (ErrorLog ''failed to delete snapshot'') \<sigma>1)
      | (None, \<sigma>1) \<Rightarrow> (None, \<sigma>1))"

text \<open>
  \<^verbatim>\<open>CreateCloneFromSnapshot\<close>, in the same two parts. Its deferred closure keeps the
  purge error in a variable of its own and never touches the snapshot.
\<close>

definition CreateCloneFromSnapshot_main ::
  "'w fs_backend \<Rightarrow> SubVolume \<Rightarrow> Snapshot \<Rightarrow> 'w fs_state \<Rightarrow> error option \<times> bool \<times> 'w fs_state" where
  "CreateCloneFromSnapshot_main B s snap \<sigma> =
     (let snapID = SnapshotID snap;
          snapClient = NewSnapshot snapID (SnapSubVolume snap)
      in case CloneSnapshot B snapClient s \<sigma> of
        (Some err, \<sigma>1) \<Rightarrow> (Some err, False, \<sigma>1)
      | (None, \<sigma>1) \<Rightarrow>
      (case GetCloneState B s \<sigma>1 of
        ((cloneState, Some err), \<sigma>2) \<Rightarrow>
          (Some err, True, emit (ErrorLog ''failed to get clone state'') \<sigma>2)
      | ((cloneState, None), \<sigma>2) \<Rightarrow>
      (case ToError cloneState of
        Some err \<Rightarrow> (Some err, True, \<sigma>2)
      | None \<Rightarrow>
      (case ExpandVolume B s (Size s) \<sigma>2 of
        (Some err, \<sigma>3) \<Rightarrow> (Some err, True, emit (ErrorLog ''failed to expand volume'') \<sigma>3)
      | (None, \<sigma>3) \<Rightarrow> (None, True, \<sigma>3)))))"

definition CreateCloneFromSnapshot_deferred ::
  "'w fs_backend \<Rightarrow> SubVolume \<Rightarrow> error option \<Rightarrow> 'w fs_state \<Rightarrow> 'w fs_state" where
  "CreateCloneFromSnapshot_deferred B s err \<sigma> =
     (case err of
        None \<Rightarrow> \<sigma>
      | Some e \<Rightarrow>
          if \<not> IsCloneRetryError e
          then (case PurgeVolume B s True \<sigma> of (dErr, \<sigma>1) \<Rightarrow>
                  if dErr \<noteq> None then emit (ErrorLog ''failed to delete volume'') \<sigma>1 else \<sigma>1)
          else \<sigma>)"

definition CreateCloneFromSnapshot ::
  "'w fs_backend \<Rightarrow> SubVolume \<Rightarrow> Snapshot \<Rightarrow> 'w fs_state \<Rightarrow> error option \<times> 'w fs_state" where
  "CreateCloneFromSnapshot B s snap \<sigma> =
     (case CreateCloneFromSnapshot_main B s snap \<sigma> of
        (ret, registered, \<sigma>') \<Rightarrow>
          if registered then (ret, CreateCloneFromSnapshot_deferred B s ret \<sigma>')
          else (ret, \<sigma>'))"

text \<open>Reading the log.\<close>

fun is_PurgeVolume :: "fs_event \<Rightarrow> bool" where
  "is_PurgeVolume (PurgeVolume_call v f r) = True"
| "is_PurgeVolume e = False"

fun is_DeleteSnapshot :: "fs_event \<Rightarrow> bool" where
  "is_DeleteSnapshot (DeleteSnapshot_call i p r) = True"
| "is_DeleteSnapshot e = False"

fun is_CreateSnapshot :: "fs_event \<Rightarrow> bool" where
  "is_CreateSnapshot (CreateSnapshot_call i p r) = True"
| "is_CreateSnapshot e = False"

fun is_CloneSnapshot :: "fs_event \<Rightarrow> bool" where
  "is_CloneSnapshot (CloneSnapshot_call i p t r) = True"
| "is_CloneSnapshot e = False"

text \<open>
  A backend to run the model on: the world is the size of each existing subvolume. A clone
  starts with the size of the snapshot's subvolume; a resize sets the size; a purge removes
  the volume. \<open>st\<close> is the clone state the backend reports and \<open>failing\<close> lists the
  operations that fail.
\<close>

definition injected :: "string list \<Rightarrow> string \<Rightarrow> error option" where
  "injected failing name = (if name \<in> set failing then Some (Other name) else None)"

definition demo_fs :: "CloneStatus \<Rightarrow> string list \<Rightarrow> (string \<Rightarrow> int option) fs_backend" where
  "demo_fs st failing =
     \<lparr>CreateSnapshot_op = (\<lambda>snap w. (injected failing ''CreateSnapshot'', w)),
      CloneSnapshot_op = (\<lambda>snap target w.
         if ''CloneSnapshot'' \<in> set failing then (Some (Other ''CloneSnapshot''), w)
         else (None, w(VolID target := w (VolID (SnapSubVolume snap))))),
      DeleteSnapshot_op = (\<lambda>snap w. (injected failing ''DeleteSnapshot'', w)),
      GetFSAdmin_op = (\<lambda>w. (injected failing ''GetFSAdmin'', w)),
      CloneStatus_op = (\<lambda>fs grp vol w.
         (if ''CloneStatus'' \<in> set failing then Inl (Other ''CloneStatus'') else Inr st, w)),
      PurgeVolume_op = (\<lambda>s force w.
         if ''PurgeVolume'' \<in> set failing then (Some (Other ''PurgeVolume''), w)
         else (None, w(VolID s := None))),
      ExpandVolume_op = (\<lambda>s n w.
         if ''ExpandVolume'' \<in> set failing then (Some (Other ''ExpandVolume''), w)
         else (None, w(VolID s \<mapsto> n)))\<rparr>"

definition status_of :: "CloneState \<Rightarrow> CloneStatus" where
  "status_of st =
     \<lparr>State = st,
      ProgressReport = \<lparr>PercentageCloned = [], AmountCloned = [], FilesCloned = []\<rparr>,
      GetFailure = (if st = CloneFailed then Some \<lparr>Errno = ''5'', ErrStr = ''EIO''\<rparr> else None)\<rparr>"

definition parent_vol :: SubVolume where
  "parent_vol = \<lparr>VolID = ''parent'', FsName = ''fs'', SubvolumeGroup = ''csi'', Size = 100\<rparr>"

definition target_vol :: SubVolume where
  "target_vol = \<lparr>VolID = ''clone'', FsName = ''fs'', SubvolumeGroup = ''csi'', Size = 50\<rparr>"

definition world0 :: "string \<Rightarrow> int option" where
  "world0 = (\<lambda>v. if v = ''parent'' then Some 100 else None)"

text \<open>The clone state \<^verbatim>\<open>GetCloneState\<close> builds from a status the backend returned.\<close>

definition state_from_status :: "CloneStatus \<Rightarrow> cephFSCloneState" where
  "state_from_status cs =
     \<lparr>state = State cs, progressReport = ProgressReport cs,
      errno = (case GetFailure cs of None \<Rightarrow> [] | Some failure \<Rightarrow> Errno failure),
      errorMsg = (case GetFailure cs of None \<Rightarrow> [] | Some failure \<Rightarrow> ErrStr failure)\<rparr>"

text \<open>The snapshots and the clones a log asks the backend to create, by name.\<close>

fun snapshots_requested :: "fs_event list \<Rightarrow> (string \<times> string) list" where
  "snapshots_requested [] = []"
| "snapshots_requested (CreateSnapshot_call i p r # es) = (i, p) # snapshots_requested es"
| "snapshots_requested (e # es) = snapshots_requested es"

fun clones_requested :: "fs_event list \<Rightarrow> (string \<times> string \<times> string) list" where
  "clones_requested [] = []"
| "clones_requested (CloneSnapshot_call i p t r # es) = (i, p, t) # clones_requested es"
| "clones_requested (e # es) = clones_requested es"

section \<open>RBD: volume groups\<close>

text \<open>
  \<^verbatim>\<open>types.Volume\<close> is an interface whose implementation is not among the source
  files. A volume handle is the identity of the handle object together with what its
  getters \<^verbatim>\<open>GetID\<close> and \<^verbatim>\<open>GetName\<close> return; its other methods act on the backend.
  \<^verbatim>\<open>types.Snapshot\<close> is a handle as well; a \<^verbatim>\<open>nil\<close> interface value is \<open>None\<close>.
\<close>

record Volume =
  handle :: nat
  GetID :: "error + string"
  GetName :: "error + string"

datatype SnapshotHandle = SnapshotHandle nat

type_synonym Credentials = string

text \<open>go-ceph's \<^verbatim>\<open>GroupSnap\<close> and \<^verbatim>\<open>GroupSnapInfo\<close>.\<close>

record GroupSnap =
  Name :: string
  PoolID :: "64 word"
  SnapID :: "64 word"

record GroupSnapInfo =
  SnapName :: string
  Snapshots :: "GroupSnap list"

text \<open>
  The group object. The embedded \<^verbatim>\<open>commonVolumeGroup\<close> is not among the source files:
  the group keeps the identifier it was initialised with, and everything else of the
  common part lives in the world.
\<close>

record volumeGroup =
  vg_id :: string
  volumes :: "Volume list"
  volumesToFree :: "Volume list"

text \<open>
  The collaborators of the group. The attributes of a group are its \<^verbatim>\<open>VolumeMap\<close>; Go
  ranges over a map in an unspecified order, so the map is given as the list of its
  entries in the order of the run. \<^verbatim>\<open>DecomposeCSIID\<close> yields the object UUID of a
  group identifier and touches nothing.
\<close>

record 'w rbd_backend =
  initCommonVolumeGroup_op :: "string \<Rightarrow> string \<Rightarrow> Credentials \<Rightarrow> 'w \<Rightarrow> error option \<times> 'w"
  getVolumeGroupAttributes_op :: "string \<Rightarrow> 'w \<Rightarrow> (error + (string \<times> string) list) \<times> 'w"
  GetVolumeByID_op :: "string \<Rightarrow> 'w \<Rightarrow> (error + Volume) \<times> 'w"
  Volume_Destroy_op :: "Volume \<Rightarrow> 'w \<Rightarrow> 'w"
  common_Destroy_op :: "string \<Rightarrow> 'w \<Rightarrow> 'w"
  vg_GetName_op :: "string \<Rightarrow> 'w \<Rightarrow> (error + string) \<times> 'w"
  vg_GetIOContext_op :: "string \<Rightarrow> 'w \<Rightarrow> (error + nat) \<times> 'w"
  vg_GetPool_op :: "string \<Rightarrow> 'w \<Rightarrow> (error + string) \<times> 'w"
  vg_GetID_op :: "string \<Rightarrow> 'w \<Rightarrow> (error + string) \<times> 'w"
  AddToGroup_op :: "Volume \<Rightarrow> string \<Rightarrow> 'w \<Rightarrow> error option \<times> 'w"
  RemoveFromGroup_op :: "Volume \<Rightarrow> string \<Rightarrow> 'w \<Rightarrow> error option \<times> 'w"
  DecomposeCSIID_op :: "string \<Rightarrow> error + string"
  getJournal_op :: "string \<Rightarrow> 'w \<Rightarrow> (error + nat) \<times> 'w"
  AddVolumesMapping_op :: "nat \<Rightarrow> string \<Rightarrow> string \<Rightarrow> (string \<times> string) list \<Rightarrow> 'w \<Rightarrow> error option \<times> 'w"
  RemoveVolumesMapping_op :: "nat \<Rightarrow> string \<Rightarrow> string \<Rightarrow> string list \<Rightarrow> 'w \<Rightarrow> error option \<times> 'w"
  GroupSnapCreate_op :: "nat \<Rightarrow> string \<Rightarrow> string \<Rightarrow> 'w \<Rightarrow> error option \<times> 'w"
  GroupSnapRemove_op :: "nat \<Rightarrow> string \<Rightarrow> string \<Rightarrow> 'w \<Rightarrow> error option \<times> 'w"
  GroupSnapGetInfo_op :: "nat \<Rightarrow> string \<Rightarrow> string \<Rightarrow> 'w \<Rightarrow> (error + GroupSnapInfo) \<times> 'w"
  NewSnapshotByID_op ::
    "Volume \<Rightarrow> Credentials \<Rightarrow> string \<Rightarrow> 64 word \<Rightarrow> 'w \<Rightarrow> (SnapshotHandle option \<times> error option) \<times> 'w"
  Snapshot_Destroy_op :: "SnapshotHandle \<Rightarrow> 'w \<Rightarrow> 'w"

datatype rbd_event =
    initCommonVolumeGroup_call string "error option"
  | getVolumeGroupAttributes_call string "error + (string \<times> string) list"
  | GetVolumeByID_call string "error + Volume"
  | Volume_Destroy_call Volume
  | common_Destroy_call string
  | vg_GetName_call string "error + string"
  | vg_GetIOContext_call string "error + nat"
  | vg_GetPool_call string "error + string"
  | vg_GetID_call string "error + string"
  | AddToGroup_call Volume string "error option"
  | RemoveFromGroup_call Volume string "error option"
  | getJournal_call string "error + nat"
  | AddVolumesMapping_call string string "(string \<times> string) list" "error option"
  | RemoveVolumesMapping_call string string "string list" "error option"
  | GroupSnapCreate_call string string "error option"
  | GroupSnapRemove_call string string "error option"
  | GroupSnapGetInfo_call string string "error + GroupSnapInfo"
  | NewSnapshotByID_call Volume string "64 word" "SnapshotHandle option \<times> error option"
  | Snapshot_Destroy_call SnapshotHandle
  | rbd_ErrorLog string
  | rbd_DebugLog string

type_synonym 'w rbd_state = "'w \<times> rbd_event list"

text \<open>A call that returns nothing.\<close>

definition effect :: "('w \<Rightarrow> 'w) \<Rightarrow> 'e \<Rightarrow> 'w \<times> 'e list \<Rightarrow> 'w \<times> 'e list" where
  "effect f e \<sigma> = (f (fst \<sigma>), snd \<sigma> @ [e])"

subsection \<open>GetVolumeGroup\<close>

text \<open>
  The loop over the volume identifiers of the group: it stops at the first identifier that
  does not resolve, with the wrapped error of the \<^verbatim>\<open>return\<close> statement, and gives in
  both cases the variable \<^verbatim>\<open>volumes\<close> as it stands.
\<close>

fun resolve_volumes ::
  "'w rbd_backend \<Rightarrow> string \<Rightarrow> string list \<Rightarrow> Volume list \<Rightarrow> 'w rbd_state \<Rightarrow>
     (error option \<times> Volume list) \<times> 'w rbd_state" where
  "resolve_volumes B id' [] vols \<sigma> = ((None, vols), \<sigma>)"
| "resolve_volumes B id' (volID # rest) vols \<sigma> =
     (case call (GetVolumeByID_op B volID) (GetVolumeByID_call volID) \<sigma> of
        (Inl err, \<sigma>1) \<Rightarrow>
          ((Some (Wrapf ''failed to get attributes for volume group id %q: %w'' [id'] err), vols), \<sigma>1)
      | (Inr vol, \<sigma>1) \<Rightarrow> resolve_volumes B id' rest (vols @ [vol]) \<sigma>1)"

text \<open>\<^verbatim>\<open>for _, v := range volumes { v.Destroy(ctx) }\<close>\<close>

fun destroy_volumes :: "'w rbd_backend \<Rightarrow> Volume list \<Rightarrow> 'w rbd_state \<Rightarrow> 'w rbd_state" where
  "destroy_volumes B [] \<sigma> = \<sigma>"
| "destroy_volumes B (v # vs) \<sigma> =
     destroy_volumes B vs (effect (Volume_Destroy_op B v) (Volume_Destroy_call v) \<sigma>)"

text \<open>The deferred closure of \<^verbatim>\<open>GetVolumeGroup\<close>, registered once the attributes are read.\<close>

definition GetVolumeGroup_deferred ::
  "'w rbd_backend \<Rightarrow> volumeGroup \<Rightarrow> Volume list \<Rightarrow> 'w rbd_state \<Rightarrow> 'w rbd_state" where
  "GetVolumeGroup_deferred B vg vols \<sigma> =
     (if length (volumesToFree vg) > 0 then \<sigma> else destroy_volumes B vols \<sigma>)"

text \<open>The result is the pair Go returns: the group (or \<^verbatim>\<open>nil\<close>) and the error (or \<^verbatim>\<open>nil\<close>).\<close>

definition GetVolumeGroup ::
  "'w rbd_backend \<Rightarrow> string \<Rightarrow> string \<Rightarrow> Credentials \<Rightarrow> 'w rbd_state \<Rightarrow>
     (volumeGroup option \<times> error option) \<times> 'w rbd_state" where
  "GetVolumeGroup B id' csiDriver creds \<sigma> =
     (let vg = \<lparr>vg_id = id', volumes = [], volumesToFree = []\<rparr>
      in case call (initCommonVolumeGroup_op B id' csiDriver creds) (initCommonVolumeGroup_call id') \<sigma> of
        (Some err, \<sigma>1) \<Rightarrow>
          ((None, Some (Wrapf ''failed to initialize volume group with id %q: %w'' [id'] err)), \<sigma>1)
      | (None, \<sigma>1) \<Rightarrow>
      (case call (getVolumeGroupAttributes_op B id') (getVolumeGroupAttributes_call id') \<sigma>1 of
        (Inl err, \<sigma>2) \<Rightarrow>
          if errors_Is err ErrRBDGroupNotFound
          then ((Some vg, Some err), emit (rbd_ErrorLog ''returning empty volume group'') \<sigma>2)
          else ((None, Some (Wrapf ''failed to get volume attributes for id %q: %w'' [] err)), \<sigma>2)
      | (Inr VolumeMap, \<sigma>2) \<Rightarrow>
      (case resolve_volumes B id' (map fst VolumeMap) [] \<sigma>2 of
        ((Some err, vols), \<sigma>3) \<Rightarrow> ((None, Some err), GetVolumeGroup_deferred B vg vols \<sigma>3)
      | ((None, vols), \<sigma>3) \<Rightarrow>
          (let vg' = vg\<lparr>volumes := vols, volumesToFree := vols\<rparr>
           in ((Some vg', None),
               GetVolumeGroup_deferred B vg' vols
                 (emit (rbd_DebugLog ''GetVolumeGroup returns'') \<sigma>3))))))"

subsection \<open>Destroy, AddVolume, RemoveVolume\<close>

definition Destroy :: "'w rbd_backend \<Rightarrow> volumeGroup \<Rightarrow> 'w rbd_state \<Rightarrow> volumeGroup \<times> 'w rbd_state" where
  "Destroy B vg \<sigma> =
     (case (if length (volumesToFree vg) > 0
            then (vg\<lparr>volumesToFree := []\<rparr>, destroy_volumes B (volumesToFree vg) \<sigma>)
            else (vg, \<sigma>)) of
        (vg', \<sigma>1) \<Rightarrow> (vg', effect (common_Destroy_op B (vg_id vg)) (common_Destroy_call (vg_id vg)) \<sigma>1))"

text \<open>
  \<^verbatim>\<open>AddVolume\<close> appends to \<^verbatim>\<open>vg.volumes\<close> only. The slice \<^verbatim>\<open>volumesToFree\<close> may
  share its backing array with \<^verbatim>\<open>volumes\<close>, but has its own length, and an append
  writes beyond that length or into a new array: the elements \<^verbatim>\<open>volumesToFree\<close> sees do
  not change, so both are lists here. The volume stays appended when a later step fails.
\<close>

definition AddVolume ::
  "'w rbd_backend \<Rightarrow> volumeGroup \<Rightarrow> Volume \<Rightarrow> 'w rbd_state \<Rightarrow> (error option \<times> volumeGroup) \<times> 'w rbd_state" where
  "AddVolume B vg vol \<sigma> =
     (case call (AddToGroup_op B vol (vg_id vg)) (AddToGroup_call vol (vg_id vg)) \<sigma> of
        (Some err, \<sigma>1) \<Rightarrow>
          ((Some (Wrapf ''failed to add volume %q to volume group %q: %w'' [] err), vg), \<sigma>1)
      | (None, \<sigma>1) \<Rightarrow>
      (let vg1 = vg\<lparr>volumes := volumes vg @ [vol]\<rparr>
       in case GetID vol of
        Inl err \<Rightarrow> ((Some err, vg1), \<sigma>1)
      | Inr volID \<Rightarrow>
      (case call (vg_GetPool_op B (vg_id vg)) (vg_GetPool_call (vg_id vg)) \<sigma>1 of
        (Inl err, \<sigma>2) \<Rightarrow> ((Some err, vg1), \<sigma>2)
      | (Inr pool, \<sigma>2) \<Rightarrow>
      (case call (vg_GetID_op B (vg_id vg)) (vg_GetID_call (vg_id vg)) \<sigma>2 of
        (Inl err, \<sigma>3) \<Rightarrow> ((Some err, vg1), \<sigma>3)
      | (Inr id', \<sigma>3) \<Rightarrow>
      (case DecomposeCSIID_op B id' of
        Inl err \<Rightarrow> ((Some (Wrapf ''failed to decompose volume group id %q: %w'' [id'] err), vg1), \<sigma>3)
      | Inr ObjectUUID \<Rightarrow>
      (let toAdd = [(volID, [])]
       in case call (getJournal_op B (vg_id vg)) (getJournal_call (vg_id vg)) \<sigma>3 of
        (Inl err, \<sigma>4) \<Rightarrow> ((Some err, vg1), \<sigma>4)
      | (Inr j, \<sigma>4) \<Rightarrow>
      (case call (AddVolumesMapping_op B j pool ObjectUUID toAdd)
              (AddVolumesMapping_call pool ObjectUUID toAdd) \<sigma>4 of
        (Some err, \<sigma>5) \<Rightarrow>
          ((Some (Wrapf ''failed to add mapping for volume %q to volume group id %q: %w''
                    [volID, id'] err), vg1), \<sigma>5)
      | (None, \<sigma>5) \<Rightarrow> ((None, vg1), \<sigma>5))))))))"

text \<open>
  The loop of \<^verbatim>\<open>RemoveVolume\<close> that builds the new list in a fresh slice: it stops with
  the error of the first member whose identifier cannot be read.
\<close>

fun volumes_without :: "string \<Rightarrow> Volume list \<Rightarrow> Volume list \<Rightarrow> error + Volume list" where
  "volumes_without toRemove [] vols = Inr vols"
| "volumes_without toRemove (v # vs) vols =
     (case GetID v of
        Inl err \<Rightarrow> Inl err
      | Inr id' \<Rightarrow>
          if id' = toRemove then volumes_without toRemove vs vols
          else volumes_without toRemove vs (vols @ [v]))"

definition RemoveVolume ::
  "'w rbd_backend \<Rightarrow> volumeGroup \<Rightarrow> Volume \<Rightarrow> 'w rbd_state \<Rightarrow> (error option \<times> volumeGroup) \<times> 'w rbd_state" where
  "RemoveVolume B vg vol \<sigma> =
     (if length (volumes vg) = 0 then ((None, vg), \<sigma>)
      else case call (RemoveFromGroup_op B vol (vg_id vg)) (RemoveFromGroup_call vol (vg_id vg)) \<sigma> of
        (Some err, \<sigma>1) \<Rightarrow>
          if errors_Is err librbd_ErrNotExist then ((None, vg), \<sigma>1)
          else ((Some (Wrapf ''failed to remove volume %q from volume group %q: %w'' [] err), vg), \<sigma>1)
      | (None, \<sigma>1) \<Rightarrow>
      (case GetID vol of
        Inl err \<Rightarrow> ((Some (Wrapf ''failed to get volume id for %q: %w'' [] err), vg), \<sigma>1)
      | Inr toRemove \<Rightarrow>
      (case volumes_without toRemove (volumes vg) [] of
        Inl err \<Rightarrow> ((Some err, vg), \<sigma>1)
      | Inr vols \<Rightarrow>
      (let vg1 = vg\<lparr>volumes := vols\<rparr>
       in case call (vg_GetPool_op B (vg_id vg)) (vg_GetPool_call (vg_id vg)) \<sigma>1 of
        (Inl err, \<sigma>2) \<Rightarrow> ((Some err, vg1), \<sigma>2)
      | (Inr pool, \<sigma>2) \<Rightarrow>
      (case call (vg_GetID_op B (vg_id vg)) (vg_GetID_call (vg_id vg)) \<sigma>2 of
        (Inl err, \<sigma>3) \<Rightarrow> ((Some err, vg1), \<sigma>3)
      | (Inr id', \<sigma>3) \<Rightarrow>
      (case DecomposeCSIID_op B id' of
        Inl err \<Rightarrow> ((Some (Wrapf ''failed to decompose volume group id %q: %w'' [id'] err), vg1), \<sigma>3)
      | Inr ObjectUUID \<Rightarrow>
      (let mapping = [toRemove]
       in case call (getJournal_op B (vg_id vg)) (getJournal_call (vg_id vg)) \<sigma>3 of
        (Inl err, \<sigma>4) \<Rightarrow> ((Some err, vg1), \<sigma>4)
      | (Inr j, \<sigma>4) \<Rightarrow>
      (case call (RemoveVolumesMapping_op B j pool ObjectUUID mapping)
              (RemoveVolumesMapping_call pool ObjectUUID mapping) \<sigma>4 of
        (Some err, \<sigma>5) \<Rightarrow>
          ((Some (Wrapf ''failed to remove mapping for volume %q to volume group id %q: %w''
                    [toRemove, id'] err), vg1), \<sigma>5)
      | (None, \<sigma>5) \<Rightarrow> ((None, vg1), \<sigma>5)))))))))"

definition ListVolumes :: "volumeGroup \<Rightarrow> Volume list \<times> error option" where
  "ListVolumes vg = (volumes vg, None)"

text \<open>A caller's sequence of membership changes, carried on whatever each call returns.\<close>

datatype membership_change = Add Volume | Remove Volume

fun change_membership ::
  "'w rbd_backend \<Rightarrow> membership_change list \<Rightarrow> volumeGroup \<Rightarrow> 'w rbd_state \<Rightarrow> volumeGroup \<times> 'w rbd_state" where
  "change_membership B [] vg \<sigma> = (vg, \<sigma>)"
| "change_membership B (Add vol # cs) vg \<sigma> =
     (case AddVolume B vg vol \<sigma> of ((err, vg1), \<sigma>1) \<Rightarrow> change_membership B cs vg1 \<sigma>1)"
| "change_membership B (Remove vol # cs) vg \<sigma> =
     (case RemoveVolume B vg vol \<sigma> of ((err, vg1), \<sigma>1) \<Rightarrow> change_membership B cs vg1 \<sigma>1)"

text \<open>Reading the log: the handles resolved, the handles destroyed, the journal calls.\<close>

fun resolved :: "rbd_event list \<Rightarrow> Volume list" where
  "resolved [] = []"
| "resolved (GetVolumeByID_call i (Inr v) # es) = v # resolved es"
| "resolved (e # es) = resolved es"

fun destroyed :: "rbd_event list \<Rightarrow> Volume list" where
  "destroyed [] = []"
| "destroyed (Volume_Destroy_call v # es) = v # destroyed es"
| "destroyed (e # es) = destroyed es"

fun journal_calls :: "rbd_event list \<Rightarrow> rbd_event list" where
  "journal_calls [] = []"
| "journal_calls (AddVolumesMapping_call p u m r # es) =
     AddVolumesMapping_call p u m r # journal_calls es"
| "journal_calls (RemoveVolumesMapping_call p u m r # es) =
     RemoveVolumesMapping_call p u m r # journal_calls es"
| "journal_calls (e # es) = journal_calls es"

subsection \<open>CreateSnapshots\<close>

text \<open>A Go function either returns or panics; deferred calls run in both cases.\<close>

datatype 'a outcome = Returned 'a | Panic

text \<open>The verb \<^verbatim>\<open>%d\<close>: a natural number in decimal.\<close>

fun decimal :: "nat \<Rightarrow> string" where
  "decimal i = (if 10 \<le> i then decimal (i div 10) else []) @ [char_of (i mod 10 + 48)]"

declare decimal.simps [simp del]

text \<open>
  The inner loop, for the image snapshot \<open>snap\<close> at index \<open>i\<close> of the group snapshot:
  the first member whose name is the name of \<open>snap\<close> gets the snapshot, and
  \<^verbatim>\<open>snapshots[i]\<close> takes whatever \<^verbatim>\<open>NewSnapshotByID\<close> returned, also when it failed.
  The result is the error of a \<^verbatim>\<open>return\<close> statement inside the loop, if one was
  reached, and the slice. The variable \<^verbatim>\<open>err\<close> is not \<^verbatim>\<open>nil\<close> exactly when such
  a \<^verbatim>\<open>return\<close> was reached: every assignment of an error to it is followed by one.
\<close>

fun snapshot_of_member ::
  "'w rbd_backend \<Rightarrow> Credentials \<Rightarrow> string \<Rightarrow> nat \<Rightarrow> GroupSnap \<Rightarrow> Volume list \<Rightarrow>
     SnapshotHandle option list \<Rightarrow> 'w rbd_state \<Rightarrow>
     (error option \<times> SnapshotHandle option list) \<times> 'w rbd_state" where
  "snapshot_of_member B cr grp i snap [] snapshots \<sigma> = ((None, snapshots), \<sigma>)"
| "snapshot_of_member B cr grp i snap (volume # rest) snapshots \<sigma> =
     (case GetName volume of
        Inl err \<Rightarrow> ((Some (Wrapf ''failed to get name for volume %q: %w'' [] err), snapshots), \<sigma>)
      | Inr volName \<Rightarrow>
          if volName \<noteq> Name snap then snapshot_of_member B cr grp i snap rest snapshots \<sigma>
          else (let snapName = grp @ ''-snap-'' @ decimal i
                in case call (NewSnapshotByID_op B volume cr snapName (SnapID snap))
                          (NewSnapshotByID_call volume snapName (SnapID snap)) \<sigma> of
                  ((s, Some err), \<sigma>1) \<Rightarrow>
                    ((Some (Wrapf
                        ''failed to create snapshot for image %q with snapshot id %d: %w''
                        [Name snap] err), snapshots[i := s]), \<sigma>1)
                | ((s, None), \<sigma>1) \<Rightarrow> ((None, snapshots[i := s]), \<sigma>1)))"

text \<open>The outer loop over \<^verbatim>\<open>info.Snapshots\<close>, from index \<open>i\<close> on.\<close>

fun snapshots_of_members ::
  "'w rbd_backend \<Rightarrow> Credentials \<Rightarrow> string \<Rightarrow> Volume list \<Rightarrow> nat \<Rightarrow> GroupSnap list \<Rightarrow>
     SnapshotHandle option list \<Rightarrow> 'w rbd_state \<Rightarrow>
     (error option \<times> SnapshotHandle option list) \<times> 'w rbd_state" where
  "snapshots_of_members B cr grp vols i [] snapshots \<sigma> = ((None, snapshots), \<sigma>)"
| "snapshots_of_members B cr grp vols i (snap # rest) snapshots \<sigma> =
     (case snapshot_of_member B cr grp i snap vols snapshots \<sigma> of
        ((Some err, snapshots'), \<sigma>1) \<Rightarrow> ((Some err, snapshots'), \<sigma>1)
      | ((None, snapshots'), \<sigma>1) \<Rightarrow>
          snapshots_of_members B cr grp vols (Suc i) rest snapshots' \<sigma>1)"

text \<open>
  The loop of the second deferred closure,
  \<^verbatim>\<open>for _, snapshot := range snapshots { snapshot.Destroy(ctx) }\<close>: a method call on a
  \<^verbatim>\<open>nil\<close> interface value is a run-time panic. The result says whether it panicked.
\<close>

fun destroy_snapshots ::
  "'w rbd_backend \<Rightarrow> SnapshotHandle option list \<Rightarrow> 'w rbd_state \<Rightarrow> bool \<times> 'w rbd_state" where
  "destroy_snapshots B [] \<sigma> = (False, \<sigma>)"
| "destroy_snapshots B (None # rest) \<sigma> = (True, \<sigma>)"
| "destroy_snapshots B (Some snapshot # rest) \<sigma> =
     destroy_snapshots B rest
       (effect (Snapshot_Destroy_op B snapshot) (Snapshot_Destroy_call snapshot) \<sigma>)"

text \<open>
  The statements after the first \<^verbatim>\<open>defer\<close>, with the second deferred closure: it runs
  when the loops ended with a \<^verbatim>\<open>return\<close> of an error. A \<^verbatim>\<open>return nil, err\<close> gives
  the empty slice.
\<close>

definition CreateSnapshots_of_group ::
  "'w rbd_backend \<Rightarrow> volumeGroup \<Rightarrow> Credentials \<Rightarrow> string \<Rightarrow> nat \<Rightarrow> string \<Rightarrow> 'w rbd_state \<Rightarrow>
     (SnapshotHandle option list \<times> error option) outcome \<times> 'w rbd_state" where
  "CreateSnapshots_of_group B vg cr grp ioctx name \<sigma> =
     (case call (GroupSnapGetInfo_op B ioctx grp name) (GroupSnapGetInfo_call grp name) \<sigma> of
        (Inl err, \<sigma>1) \<Rightarrow>
          (Returned ([], Some (Wrapf ''failed to get info for volume group snapshot %q: %w''
                                 [] err)), \<sigma>1)
      | (Inr info, \<sigma>1) \<Rightarrow>
          (let snapshots = replicate (length (Snapshots info)) None
           in case snapshots_of_members B cr grp (volumes vg) 0 (Snapshots info) snapshots \<sigma>1 of
             ((None, snapshots'), \<sigma>2) \<Rightarrow> (Returned (snapshots', None), \<sigma>2)
           | ((Some err, snapshots'), \<sigma>2) \<Rightarrow>
               (case destroy_snapshots B snapshots' \<sigma>2 of
                  (True, \<sigma>3) \<Rightarrow> (Panic, \<sigma>3)
                | (False, \<sigma>3) \<Rightarrow> (Returned ([], Some err), \<sigma>3))))"

text \<open>
  \<^verbatim>\<open>CreateSnapshots\<close>. The first deferred closure removes the group snapshot after
  everything else, whether the rest returned or panicked.
\<close>

definition CreateSnapshots ::
  "'w rbd_backend \<Rightarrow> volumeGroup \<Rightarrow> Credentials \<Rightarrow> string \<Rightarrow> 'w rbd_state \<Rightarrow>
     (SnapshotHandle option list \<times> error option) outcome \<times> 'w rbd_state" where
  "CreateSnapshots B vg cr name \<sigma> =
     (case call (vg_GetName_op B (vg_id vg)) (vg_GetName_call (vg_id vg)) \<sigma> of
        (Inl err, \<sigma>1) \<Rightarrow> (Returned ([], Some err), \<sigma>1)
      | (Inr grp, \<sigma>1) \<Rightarrow>
      (case call (vg_GetIOContext_op B (vg_id vg)) (vg_GetIOContext_call (vg_id vg)) \<sigma>1 of
        (Inl err, \<sigma>2) \<Rightarrow> (Returned ([], Some err), \<sigma>2)
      | (Inr ioctx, \<sigma>2) \<Rightarrow>
      (case call (GroupSnapCreate_op B ioctx grp name) (GroupSnapCreate_call grp name) \<sigma>2 of
        (err, \<sigma>3) \<Rightarrow>
          if (case err of None \<Rightarrow> False | Some e \<Rightarrow> \<not> errors_Is e librbd_ErrExist)
          then (Returned ([], map_option (Wrapf ''failed to create volume group snapshot %q: %w''
                                            [name]) err), \<sigma>3)
          else
            (let \<sigma>3' = (if err \<noteq> None
                        then emit (rbd_DebugLog ''ignoring error while creating volume group snapshot'') \<sigma>3
                        else \<sigma>3)
             in case CreateSnapshots_of_group B vg cr grp ioctx name \<sigma>3' of
               (result, \<sigma>4) \<Rightarrow>
                 (case call (GroupSnapRemove_op B ioctx grp name)
                         (GroupSnapRemove_call grp name) \<sigma>4 of
                    (cleanupErr, \<sigma>5) \<Rightarrow>
                      (result,
                       if cleanupErr \<noteq> None
                       then emit (rbd_ErrorLog ''failed to remove temporary volume group snapshot'') \<sigma>5
                       else \<sigma>5))))))"

text \<open>Reading the log: the snapshot objects created and those destroyed.\<close>

fun snapshots_created :: "rbd_event list \<Rightarrow> SnapshotHandle list" where
  "snapshots_created [] = []"
| "snapshots_created (NewSnapshotByID_call v n i (Some s, r) # es) = s # snapshots_created es"
| "snapshots_created (e # es) = snapshots_created es"

fun snapshots_destroyed :: "rbd_event list \<Rightarrow> SnapshotHandle list" where
  "snapshots_destroyed [] = []"
| "snapshots_destroyed (Snapshot_Destroy_call s # es) = s # snapshots_destroyed es"
| "snapshots_destroyed (e # es) = snapshots_destroyed es"

subsection \<open>A backend to run the grp on\<close>

text \<open>
  The world of this backend: the identifiers of the images in the backend group, the
  volume map of the journal, and the group snapshots that exist. Volumes resolve from a
  table; the group snapshot reports the image snapshots \<open>images\<close>; the operations and
  the image names listed in \<open>failing\<close> fail. A removal from the group reports the
  image as not in the group when it is not, and also when \<open>RemoveFromGroup\<close> is listed
  (the image was taken out of the group behind the driver's back). A snapshot object
  made from the image snapshot with identifier \<open>n\<close> has the handle \<open>n\<close>.
\<close>

record rbd_world =
  group_exists :: bool
  group_images :: "string list"
  journal :: "(string \<times> string) list"
  group_snaps :: "string list"

definition id_of :: "Volume \<Rightarrow> string" where
  "id_of v = (case GetID v of Inl e \<Rightarrow> [] | Inr i \<Rightarrow> i)"

definition demo_rbd :: "Volume list \<Rightarrow> GroupSnap list \<Rightarrow> string list \<Rightarrow> rbd_world rbd_backend" where
  "demo_rbd table images failing =
     \<lparr>initCommonVolumeGroup_op = (\<lambda>i d c w. (injected failing ''initCommonVolumeGroup'', w)),
      getVolumeGroupAttributes_op = (\<lambda>i w.
         (if ''getVolumeGroupAttributes'' \<in> set failing
          then Inl (Other ''getVolumeGroupAttributes'')
          else if group_exists w then Inr (journal w) else Inl ErrRBDGroupNotFound, w)),
      GetVolumeByID_op = (\<lambda>i w.
         (case find (\<lambda>v. GetID v = Inr i) table of
            None \<Rightarrow> Inl librbd_ErrNotFound
          | Some v \<Rightarrow> if i \<in> set failing then Inl (Other i) else Inr v, w)),
      Volume_Destroy_op = (\<lambda>v w. w),
      common_Destroy_op = (\<lambda>i w. w),
      vg_GetName_op = (\<lambda>i w. (Inr ''group-1'', w)),
      vg_GetIOContext_op = (\<lambda>i w. (Inr 7, w)),
      vg_GetPool_op = (\<lambda>i w. (Inr ''pool-1'', w)),
      vg_GetID_op = (\<lambda>i w. (Inr i, w)),
      AddToGroup_op = (\<lambda>v g w.
         (None, w\<lparr>group_images := List.insert (id_of v) (group_images w)\<rparr>)),
      RemoveFromGroup_op = (\<lambda>v g w.
         if id_of v \<in> set (group_images w) \<and> ''RemoveFromGroup'' \<notin> set failing
         then (None, w\<lparr>group_images := removeAll (id_of v) (group_images w)\<rparr>)
         else (Some librbd_ErrNotExist, w)),
      DecomposeCSIID_op = (\<lambda>i. Inr (''uuid-of-'' @ i)),
      getJournal_op = (\<lambda>i w. (Inr 1, w)),
      AddVolumesMapping_op = (\<lambda>j p u m w.
         (None, w\<lparr>journal := filter (\<lambda>kv. fst kv \<notin> fst ` set m) (journal w) @ m\<rparr>)),
      RemoveVolumesMapping_op = (\<lambda>j p u ks w.
         (None, w\<lparr>journal := filter (\<lambda>kv. fst kv \<notin> set ks) (journal w)\<rparr>)),
      GroupSnapCreate_op = (\<lambda>c g n w.
         if n \<in> set (group_snaps w) then (Some librbd_ErrExist, w)
         else (None, w\<lparr>group_snaps := n # group_snaps w\<rparr>)),
      GroupSnapRemove_op = (\<lambda>c g n w. (None, w\<lparr>group_snaps := removeAll n (group_snaps w)\<rparr>)),
      GroupSnapGetInfo_op = (\<lambda>c g n w. (Inr \<lparr>SnapName = n, Snapshots = images\<rparr>, w)),
      NewSnapshotByID_op = (\<lambda>v c n i w.
         (if GetName v \<in> Inr ` set failing then (None, Some (Other n))
          else (Some (SnapshotHandle (unat i)), None), w)),
      Snapshot_Destroy_op = (\<lambda>s w. w)\<rparr>"

definition vol_a :: Volume where
  "vol_a = \<lparr>handle = 1, GetID = Inr ''id-a'', GetName = Inr ''img-a''\<rparr>"

definition vol_b :: Volume where
  "vol_b = \<lparr>handle = 2, GetID = Inr ''id-b'', GetName = Inr ''img-b''\<rparr>"

definition vol_c :: Volume where
  "vol_c = \<lparr>handle = 3, GetID = Inr ''id-c'', GetName = Inr ''img-c''\<rparr>"

text \<open>A second handle for the volume of \<open>vol_a\<close>, as a caller resolves it on its own.\<close>

definition vol_a' :: Volume where
  "vol_a' = \<lparr>handle = 4, GetID = Inr ''id-a'', GetName = Inr ''img-a''\<rparr>"

definition image_snap :: "string \<Rightarrow> nat \<Rightarrow> GroupSnap" where
  "image_snap n i = \<lparr>Name = n, PoolID = 1, SnapID = of_nat i\<rparr>"

definition rbd_world0 :: rbd_world where
  "rbd_world0 =
     \<lparr>group_exists = True, group_images = [''id-a'', ''id-b''],
      journal = [(''id-a'', []), (''id-b'', [])], group_snaps = []\<rparr>"

definition group_ab :: volumeGroup where
  "group_ab = \<lparr>vg_id = ''vg-1'', volumes = [vol_a, vol_b], volumesToFree = [vol_a, vol_b]\<rparr>"

text \<open>A successful resolution of a volume identifier.\<close>

fun is_resolution :: "rbd_event \<Rightarrow> bool" where
  "is_resolution (GetVolumeByID_call i (Inr v)) = True"
| "is_resolution e = False"

section \<open>RBD: reclaiming space\<close>

text \<open>
  The volume of \<^verbatim>\<open>ControllerReclaimSpace\<close> is a \<^verbatim>\<open>types.Volume\<close> whose
  \<^verbatim>\<open>Sparsify\<close> is the method of \<^verbatim>\<open>rbdImage\<close> in the source. \<^verbatim>\<open>isInUse\<close> returns
  a pair, as in Go; an open image and a manager are handles.
\<close>

record ImageInfo =
  Order :: int

record 'w space_backend =
  isInUse_op :: "Volume \<Rightarrow> 'w \<Rightarrow> (bool \<times> error option) \<times> 'w"
  open_op :: "Volume \<Rightarrow> 'w \<Rightarrow> (error + nat) \<times> 'w"
  Stat_op :: "nat \<Rightarrow> 'w \<Rightarrow> (error + ImageInfo) \<times> 'w"
  image_Sparsify_op :: "nat \<Rightarrow> 64 word \<Rightarrow> 'w \<Rightarrow> error option \<times> 'w"
  Close_op :: "nat \<Rightarrow> 'w \<Rightarrow> 'w"
  TryAcquire_op :: "string \<Rightarrow> 'w \<Rightarrow> bool \<times> 'w"
  Release_op :: "string \<Rightarrow> 'w \<Rightarrow> 'w"
  NewManager_op :: "string \<Rightarrow> (string \<times> string) list \<Rightarrow> 'w \<Rightarrow> nat \<times> 'w"
  Manager_Destroy_op :: "nat \<Rightarrow> 'w \<Rightarrow> 'w"
  Manager_GetVolumeByID_op :: "nat \<Rightarrow> string \<Rightarrow> 'w \<Rightarrow> (error + Volume) \<times> 'w"
  rbdVol_Destroy_op :: "Volume \<Rightarrow> 'w \<Rightarrow> 'w"

datatype space_event =
    isInUse_call Volume "bool \<times> error option"
  | open_call Volume "error + nat"
  | Stat_call nat "error + ImageInfo"
  | image_Sparsify_call nat "64 word" "error option"
  | Close_call nat
  | TryAcquire_call string bool
  | Release_call string
  | NewManager_call string nat
  | Manager_Destroy_call nat
  | Manager_GetVolumeByID_call string "error + Volume"
  | rbdVol_Destroy_call Volume
  | space_ErrorLog string
  | space_DebugLog string

type_synonym 'w space_state = "'w \<times> space_event list"

text \<open>
  \<^verbatim>\<open>Sparsify\<close>. The deferred \<^verbatim>\<open>image.Close()\<close> runs on every exit once the image is
  open. The argument \<^verbatim>\<open>1 << imageInfo.Order\<close> is a \<^verbatim>\<open>uint\<close>: the shift wraps at 64
  bits, and a negative shift count is a run-time panic.
\<close>

definition Sparsify ::
  "'w space_backend \<Rightarrow> Volume \<Rightarrow> 'w space_state \<Rightarrow> error option outcome \<times> 'w space_state" where
  "Sparsify B ri \<sigma> =
     (case call (isInUse_op B ri) (isInUse_call ri) \<sigma> of
        ((inUse, Some err), \<sigma>1) \<Rightarrow>
          (Returned (Some (Wrapf ''failed to check if image is in use: %w'' [] err)), \<sigma>1)
      | ((inUse, None), \<sigma>1) \<Rightarrow>
          if inUse then (Returned (Some ErrImageInUse), \<sigma>1)
          else
      (case call (open_op B ri) (open_call ri) \<sigma>1 of
        (Inl err, \<sigma>2) \<Rightarrow> (Returned (Some err), \<sigma>2)
      | (Inr img, \<sigma>2) \<Rightarrow>
          (case (case call (Stat_op B img) (Stat_call img) \<sigma>2 of
                   (Inl err, \<sigma>3) \<Rightarrow> (Returned (Some err), \<sigma>3)
                 | (Inr imageInfo, \<sigma>3) \<Rightarrow>
                     if Order imageInfo < 0 then (Panic, \<sigma>3)
                     else
                       (case call (image_Sparsify_op B img (push_bit (nat (Order imageInfo)) 1))
                               (image_Sparsify_call img (push_bit (nat (Order imageInfo)) 1)) \<sigma>3 of
                          (Some err, \<sigma>4) \<Rightarrow>
                            (Returned (Some (Wrapf ''failed to sparsify image: %w'' [] err)), \<sigma>4)
                        | (None, \<sigma>4) \<Rightarrow> (Returned None, \<sigma>4))) of
             (result, \<sigma>5) \<Rightarrow> (result, effect (Close_op B img) (Close_call img) \<sigma>5))))"

text \<open>The request, the (empty) response and the gRPC status of the error return.\<close>

record ControllerReclaimSpaceRequest =
  VolumeId :: string
  Secrets :: "(string \<times> string) list"

datatype ControllerReclaimSpaceResponse = ControllerReclaimSpaceResponse

datatype codes = InvalidArgument | Aborted | Internal | Unimplemented

datatype status = Status codes string

text \<open>
  The text of \<^verbatim>\<open>util.VolumeOperationAlreadyExistsFmt\<close> is not in the source; the
  constant stands for it.
\<close>

definition VolumeOperationAlreadyExistsFmt :: string where
  "VolumeOperationAlreadyExistsFmt = ''VolumeOperationAlreadyExistsFmt''"

text \<open>
  \<^verbatim>\<open>ControllerReclaimSpace\<close>. The deferred calls run in the reverse order of their
  registration: the volume is destroyed, then the manager, then the lock is released.
  \<^verbatim>\<open>errors.Is\<close> of a \<^verbatim>\<open>nil\<close> error is false.
\<close>

definition ControllerReclaimSpace ::
  "'w space_backend \<Rightarrow> string \<Rightarrow> ControllerReclaimSpaceRequest \<Rightarrow> 'w space_state \<Rightarrow>
     (ControllerReclaimSpaceResponse option \<times> status option) outcome \<times> 'w space_state" where
  "ControllerReclaimSpace B driverInstance req \<sigma> =
     (let volumeID = VolumeId req
      in if volumeID = [] then
           (Returned (None, Some (Status InvalidArgument ''empty volume ID in request'')), \<sigma>)
         else
      (case call (TryAcquire_op B volumeID) (TryAcquire_call volumeID) \<sigma> of
        (False, \<sigma>1) \<Rightarrow>
          (Returned (None, Some (Status Aborted VolumeOperationAlreadyExistsFmt)),
           emit (space_ErrorLog VolumeOperationAlreadyExistsFmt) \<sigma>1)
      | (True, \<sigma>1) \<Rightarrow>
      (case (case call (NewManager_op B driverInstance (Secrets req))
                    (NewManager_call driverInstance) \<sigma>1 of
        (mgr, \<sigma>2) \<Rightarrow>
      (case (case call (Manager_GetVolumeByID_op B mgr volumeID)
                    (Manager_GetVolumeByID_call volumeID) \<sigma>2 of
        (Inl err, \<sigma>3) \<Rightarrow>
          (Returned (None, Some (Status Aborted ''failed to find volume with ID %q: %s'')), \<sigma>3)
      | (Inr rbdVol, \<sigma>3) \<Rightarrow>
      (case (case Sparsify B rbdVol \<sigma>3 of
        (Panic, \<sigma>4) \<Rightarrow> (Panic, \<sigma>4)
      | (Returned err, \<sigma>4) \<Rightarrow>
          if (case err of None \<Rightarrow> False | Some e \<Rightarrow> errors_Is e ErrImageInUse) then
            (Returned (Some ControllerReclaimSpaceResponse, None),
             emit (space_DebugLog ''volume is in use, skipping sparsify operation'') \<sigma>4)
          else if err \<noteq> None then
            (Returned (None, Some (Status Internal ''failed to sparsify volume %q: %s'')), \<sigma>4)
          else (Returned (Some ControllerReclaimSpaceResponse, None), \<sigma>4)) of
        (res, \<sigma>5) \<Rightarrow> (res, effect (rbdVol_Destroy_op B rbdVol) (rbdVol_Destroy_call rbdVol) \<sigma>5))) of
        (res, \<sigma>6) \<Rightarrow> (res, effect (Manager_Destroy_op B mgr) (Manager_Destroy_call mgr) \<sigma>6))) of
        (res, \<sigma>7) \<Rightarrow> (res, effect (Release_op B volumeID) (Release_call volumeID) \<sigma>7))))"

text \<open>
  A backend to run the request on: the world is the list of locked volume identifiers;
  the volume \<open>vol_a\<close> is in use, every other volume is not.
\<close>

definition demo_space :: "string list space_backend" where
  "demo_space =
     \<lparr>isInUse_op = (\<lambda>v w. ((v = vol_a, None), w)),
      open_op = (\<lambda>v w. (Inr (handle v), w)),
      Stat_op = (\<lambda>i w. (Inr \<lparr>Order = 22\<rparr>, w)),
      image_Sparsify_op = (\<lambda>i n w. (None, w)),
      Close_op = (\<lambda>i w. w),
      TryAcquire_op = (\<lambda>i w. if i \<in> set w then (False, w) else (True, i # w)),
      Release_op = (\<lambda>i w. removeAll i w),
      NewManager_op = (\<lambda>d s w. (1, w)),
      Manager_Destroy_op = (\<lambda>m w. w),
      Manager_GetVolumeByID_op = (\<lambda>m i w.
         (case find (\<lambda>v. GetID v = Inr i) [vol_a, vol_b] of
            None \<Rightarrow> Inl librbd_ErrNotFound
          | Some v \<Rightarrow> Inr v, w)),
      rbdVol_Destroy_op = (\<lambda>v w. w)\<rparr>"

section \<open>Verification: CephFS clone orchestration\<close>

lemma call_pair [simp]:
  "call f ev (w, tr) = (fst (f w), (snd (f w), tr @ [ev (fst (f w))]))"
  by (simp add: call_def split: prod.splits)

lemma emit_pair [simp]: "emit e (w, tr) = (w, tr @ [e])"
  by (simp add: emit_def)

lemmas clone_states = CloneComplete_def CloneInProgress_def ClonePending_def CloneFailed_def
  CephFSCloneError_def

lemmas fs_calls = CreateSnapshot_def CloneSnapshot_def DeleteSnapshot_def
  PurgeVolume_def ExpandVolume_def NewSnapshot_def

lemmas fs_splits = prod.splits option.splits sum.splits if_splits

lemma snapshots_requested_append:
  "snapshots_requested (xs @ ys) = snapshots_requested xs @ snapshots_requested ys"
  by (induction xs rule: snapshots_requested.induct) simp_all

lemma clones_requested_append:
  "clones_requested (xs @ ys) = clones_requested xs @ clones_requested ys"
  by (induction xs rule: clones_requested.induct) simp_all

lemma GetCloneState_run:
  "GetCloneState B s (w, tr) =
     (case GetFSAdmin_op B w of
        (Some err, w1) \<Rightarrow>
          ((CephFSCloneError, Some err),
           (w1, tr @ [GetFSAdmin_call (Some err), ErrorLog ''could not get FSAdmin'']))
      | (None, w1) \<Rightarrow>
          (case CloneStatus_op B (FsName s) (SubvolumeGroup s) (VolID s) w1 of
             (Inl err, w2) \<Rightarrow>
               ((CephFSCloneError, Some err),
                (w2, tr @ [GetFSAdmin_call None,
                           CloneStatus_call (FsName s) (SubvolumeGroup s) (VolID s) (Inl err),
                           ErrorLog ''could not get clone state'']))
           | (Inr cs, w2) \<Rightarrow>
               ((state_from_status cs, None),
                (w2, tr @ [GetFSAdmin_call None,
                           CloneStatus_call (FsName s) (SubvolumeGroup s) (VolID s) (Inr cs)]))))"
  by (simp add: GetCloneState_def state_from_status_def Let_def split: prod.splits option.splits sum.splits)

lemma subvolume_main_cases:
  assumes run: "CreateCloneFromSubvolume_main B s p (w, []) = (ret, reg, (w', tr))"
  obtains
    (create_failed) e where "ret = Some e" "\<not> reg"
      "tr = [CreateSnapshot_call (VolID s) (VolID p) (Some e), ErrorLog ''failed to create snapshot'']"
  | (clone_failed) e where "ret = Some e" "reg"
      "tr = [CreateSnapshot_call (VolID s) (VolID p) None,
             CloneSnapshot_call (VolID s) (VolID p) (VolID s) (Some e),
             ErrorLog ''failed to clone snapshot'']"
  | (admin_failed) e where "ret = Some e" "reg"
      "tr = [CreateSnapshot_call (VolID s) (VolID p) None,
             CloneSnapshot_call (VolID s) (VolID p) (VolID s) None,
             GetFSAdmin_call (Some e), ErrorLog ''could not get FSAdmin'',
             ErrorLog ''failed to get clone state'']"
  | (status_failed) e where "ret = Some e" "reg"
      "tr = [CreateSnapshot_call (VolID s) (VolID p) None,
             CloneSnapshot_call (VolID s) (VolID p) (VolID s) None,
             GetFSAdmin_call None,
             CloneStatus_call (FsName s) (SubvolumeGroup s) (VolID s) (Inl e),
             ErrorLog ''could not get clone state'',
             ErrorLog ''failed to get clone state'']"
  | (not_complete) e st where "ret = Some e" "reg" "ToError (state_from_status st) = Some e"
      "tr = [CreateSnapshot_call (VolID s) (VolID p) None,
             CloneSnapshot_call (VolID s) (VolID p) (VolID s) None,
             GetFSAdmin_call None,
             CloneStatus_call (FsName s) (SubvolumeGroup s) (VolID s) (Inr st),
             ErrorLog ''clone did not complete'']"
  | (expand_failed) e st where "ret = Some e" "reg" "ToError (state_from_status st) = None"
      "tr = [CreateSnapshot_call (VolID s) (VolID p) None,
             CloneSnapshot_call (VolID s) (VolID p) (VolID s) None,
             GetFSAdmin_call None,
             CloneStatus_call (FsName s) (SubvolumeGroup s) (VolID s) (Inr st),
             ExpandVolume_call (VolID s) (Size s) (Some e),
             ErrorLog ''failed to expand volume'']"
  | (deleted) st w3 w4 where "reg" "ToError (state_from_status st) = None"
      "ExpandVolume_op B s (Size s) w3 = (None, w4)"
      "DeleteSnapshot_op B \<lparr>SnapshotID = VolID s, SnapSubVolume = p\<rparr> w4 = (ret, w')"
      "tr = [CreateSnapshot_call (VolID s) (VolID p) None,
             CloneSnapshot_call (VolID s) (VolID p) (VolID s) None,
             GetFSAdmin_call None,
             CloneStatus_call (FsName s) (SubvolumeGroup s) (VolID s) (Inr st),
             ExpandVolume_call (VolID s) (Size s) None,
             DeleteSnapshot_call (VolID s) (VolID p) ret] @
            (if ret = None then [] else [ErrorLog ''failed to delete snapshot''])"
proof -
  let ?snap = "\<lparr>SnapshotID = VolID s, SnapSubVolume = p\<rparr>"
  note defs = CreateCloneFromSubvolume_main_def fs_calls Let_def GetCloneState_run
  obtain r1 w1 where o1: "CreateSnapshot_op B ?snap w = (r1, w1)" by fastforce
  obtain r2 w2 where o2: "CloneSnapshot_op B ?snap s w1 = (r2, w2)" by fastforce
  obtain r3 w3 where o3: "GetFSAdmin_op B w2 = (r3, w3)" by fastforce
  obtain r4 w4 where o4: "CloneStatus_op B (FsName s) (SubvolumeGroup s) (VolID s) w3 = (r4, w4)"
    by fastforce
  obtain r5 w5 where o5: "ExpandVolume_op B s (Size s) w4 = (r5, w5)" by fastforce
  obtain r6 w6 where o6: "DeleteSnapshot_op B ?snap w5 = (r6, w6)" by fastforce
  show thesis
  proof (cases r1)
    case (Some e)
    with run o1 show thesis by (intro create_failed[of e]) (auto simp: defs)
  next
    case n1: None
    show thesis
    proof (cases r2)
      case (Some e)
      with run o1 n1 o2 show thesis by (intro clone_failed[of e]) (auto simp: defs)
    next
      case n2: None
      show thesis
      proof (cases r3)
        case (Some e)
        with run o1 n1 o2 n2 o3 show thesis by (intro admin_failed[of e]) (auto simp: defs)
      next
        case n3: None
        show thesis
        proof (cases r4)
          case (Inl e)
          with run o1 n1 o2 n2 o3 n3 o4 show thesis
            by (intro status_failed[of e]) (auto simp: defs)
        next
          case i4: (Inr st)
          show thesis
          proof (cases "ToError (state_from_status st)")
            case (Some e)
            with run o1 n1 o2 n2 o3 n3 o4 i4 show thesis
              by (intro not_complete[of e st]) (auto simp: defs)
          next
            case n5: None
            show thesis
            proof (cases r5)
              case (Some e)
              with run o1 n1 o2 n2 o3 n3 o4 i4 n5 o5 show thesis
                by (intro expand_failed[of e st]) (auto simp: defs)
            next
              case n6: None
              with run o1 n1 o2 n2 o3 n3 o4 i4 n5 o5 o6 show thesis
                by (intro deleted[of st w4 w5]) (auto simp: defs split: option.splits)
            qed
          qed
        qed
      qed
    qed
  qed
qed


lemma subvolume_deferred_run:
  "CreateCloneFromSubvolume_deferred B s snap (Some e) (w, tr) =
     (if IsCloneRetryError e then (Some e, (w, tr))
      else (fst (DeleteSnapshot_op B snap (snd (PurgeVolume_op B s True w))),
            snd (DeleteSnapshot_op B snap (snd (PurgeVolume_op B s True w))),
            tr @ [PurgeVolume_call (VolID s) True (fst (PurgeVolume_op B s True w))] @
              (if fst (PurgeVolume_op B s True w) = None then []
               else [ErrorLog ''failed to delete volume'']) @
              [DeleteSnapshot_call (SnapshotID snap) (VolID (SnapSubVolume snap))
                 (fst (DeleteSnapshot_op B snap (snd (PurgeVolume_op B s True w))))] @
              (if fst (DeleteSnapshot_op B snap (snd (PurgeVolume_op B s True w))) = None then []
               else [ErrorLog ''failed to delete snapshot''])))"
  by (simp add: CreateCloneFromSubvolume_deferred_def fs_calls Let_def split: prod.splits)

lemma subvolume_run:
  assumes "CreateCloneFromSubvolume B s p (w, []) = (r, (w', tr))"
  shows "\<exists>reg w1 tr1.
    CreateCloneFromSubvolume_main B s p (w, []) = (r, reg, (w1, tr1)) \<and>
    (reg \<and> (\<exists>e. r = Some e \<and> \<not> IsCloneRetryError e) \<longrightarrow>
       (\<exists>r1 r2. tr = tr1 @ [PurgeVolume_call (VolID s) True r1] @
                  (if r1 = None then [] else [ErrorLog ''failed to delete volume'']) @
                  [DeleteSnapshot_call (VolID s) (VolID p) r2] @
                  (if r2 = None then [] else [ErrorLog ''failed to delete snapshot'']))) \<and>
    (\<not> (reg \<and> (\<exists>e. r = Some e \<and> \<not> IsCloneRetryError e)) \<longrightarrow> tr = tr1 \<and> w' = w1)"
proof -
  obtain reg w1 tr1 where m: "CreateCloneFromSubvolume_main B s p (w, []) = (r, reg, (w1, tr1))"
    using assms by (auto simp: CreateCloneFromSubvolume_def split: prod.splits if_splits)
  have c: "\<exists>r1 r2. tr = tr1 @ [PurgeVolume_call (VolID s) True r1] @
                  (if r1 = None then [] else [ErrorLog ''failed to delete volume'']) @
                  [DeleteSnapshot_call (VolID s) (VolID p) r2] @
                  (if r2 = None then [] else [ErrorLog ''failed to delete snapshot''])"
    if "reg \<and> (\<exists>e. r = Some e \<and> \<not> IsCloneRetryError e)"
    using that assms m
    by (intro exI[of _ "fst (PurgeVolume_op B s True w1)"]
          exI[of _ "fst (DeleteSnapshot_op B \<lparr>SnapshotID = VolID s, SnapSubVolume = p\<rparr>
                           (snd (PurgeVolume_op B s True w1)))"])
       (auto simp: CreateCloneFromSubvolume_def subvolume_deferred_run NewSnapshot_def)
  have n: "tr = tr1 \<and> w' = w1"
    if "\<not> (reg \<and> (\<exists>e. r = Some e \<and> \<not> IsCloneRetryError e))"
    using that assms m
    by (cases r) (auto simp: CreateCloneFromSubvolume_def subvolume_deferred_run
        CreateCloneFromSubvolume_deferred_def split: if_splits)
  from m c n show ?thesis by blast
qed

lemma ToError_retry_state:
  assumes "State st = ClonePending \<or> State st = CloneInProgress"
  shows "ToError (state_from_status st) =
           Some (if State st = ClonePending then ErrClonePending else ErrCloneInProgress)"
  using assms by (auto simp: ToError_def state_from_status_def clone_states)

lemma ToError_complete:
  "State st = CloneComplete \<Longrightarrow> ToError (state_from_status st) = None"
  by (simp add: ToError_def state_from_status_def)

lemma subvolume_retry:
  assumes run: "CreateCloneFromSubvolume B s p (w, []) = (r, (w', tr))"
      and st: "CloneStatus_call f g v (Inr st) \<in> set tr"
      and retry: "State st = ClonePending \<or> State st = CloneInProgress"
  shows "r = Some (if State st = ClonePending then ErrClonePending else ErrCloneInProgress) \<and>
         (\<forall>e \<in> set tr. \<not> is_PurgeVolume e \<and> \<not> is_DeleteSnapshot e)"
proof -
  from subvolume_run[OF run] obtain reg w1 tr1 where
    m: "CreateCloneFromSubvolume_main B s p (w, []) = (r, reg, (w1, tr1))" and
    comp: "reg \<and> (\<exists>e. r = Some e \<and> \<not> IsCloneRetryError e) \<Longrightarrow>
       \<exists>r1 r2. tr = tr1 @ [PurgeVolume_call (VolID s) True r1] @
                  (if r1 = None then [] else [ErrorLog ''failed to delete volume'']) @
                  [DeleteSnapshot_call (VolID s) (VolID p) r2] @
                  (if r2 = None then [] else [ErrorLog ''failed to delete snapshot''])" and
    nocomp: "\<not> (reg \<and> (\<exists>e. r = Some e \<and> \<not> IsCloneRetryError e)) \<Longrightarrow> tr = tr1 \<and> w' = w1"
    by blast
  note R = ToError_retry_state[OF retry]
  from m show ?thesis
  proof (cases rule: subvolume_main_cases)
    case (create_failed e)
    with nocomp st show ?thesis by auto
  next
    case (clone_failed e)
    with comp nocomp st show ?thesis
      by (cases "IsCloneRetryError e") (auto split: if_splits)
  next
    case (admin_failed e)
    with comp nocomp st show ?thesis
      by (cases "IsCloneRetryError e") (auto split: if_splits)
  next
    case (status_failed e)
    with comp nocomp st show ?thesis
      by (cases "IsCloneRetryError e") (auto split: if_splits)
  next
    case (not_complete e st')
    show ?thesis
    proof (cases "IsCloneRetryError e")
      case True
      with not_complete nocomp st R show ?thesis by auto
    next
      case False
      with not_complete comp st have "st' = st" by (auto split: if_splits)
      with not_complete R False retry show ?thesis
        by (auto simp: IsCloneRetryError_def clone_states)
    qed
  next
    case (expand_failed e st')
    with comp nocomp st have "st' = st"
      by (cases "IsCloneRetryError e") (auto split: if_splits)
    with expand_failed R show ?thesis by simp
  next
    case (deleted st' w3 w4)
    have "st' = st"
    proof (cases r)
      case None
      with deleted nocomp st show ?thesis by auto
    next
      case (Some e)
      with deleted comp nocomp st show ?thesis
        by (cases "IsCloneRetryError e") (auto split: if_splits)
    qed
    with deleted R show ?thesis by simp
  qed
qed


lemma snapshot_main_cases:
  assumes run: "CreateCloneFromSnapshot_main B s snap (w, []) = (ret, reg, (w', tr))"
  obtains
    (clone_failed) e where "ret = Some e" "\<not> reg"
      "tr = [CloneSnapshot_call (SnapshotID snap) (VolID (SnapSubVolume snap)) (VolID s) (Some e)]"
  | (admin_failed) e where "ret = Some e" "reg"
      "tr = [CloneSnapshot_call (SnapshotID snap) (VolID (SnapSubVolume snap)) (VolID s) None,
             GetFSAdmin_call (Some e), ErrorLog ''could not get FSAdmin'',
             ErrorLog ''failed to get clone state'']"
  | (status_failed) e where "ret = Some e" "reg"
      "tr = [CloneSnapshot_call (SnapshotID snap) (VolID (SnapSubVolume snap)) (VolID s) None,
             GetFSAdmin_call None,
             CloneStatus_call (FsName s) (SubvolumeGroup s) (VolID s) (Inl e),
             ErrorLog ''could not get clone state'',
             ErrorLog ''failed to get clone state'']"
  | (not_complete) e st where "ret = Some e" "reg" "ToError (state_from_status st) = Some e"
      "tr = [CloneSnapshot_call (SnapshotID snap) (VolID (SnapSubVolume snap)) (VolID s) None,
             GetFSAdmin_call None,
             CloneStatus_call (FsName s) (SubvolumeGroup s) (VolID s) (Inr st)]"
  | (expanded) st where "reg" "ToError (state_from_status st) = None"
      "tr = [CloneSnapshot_call (SnapshotID snap) (VolID (SnapSubVolume snap)) (VolID s) None,
             GetFSAdmin_call None,
             CloneStatus_call (FsName s) (SubvolumeGroup s) (VolID s) (Inr st),
             ExpandVolume_call (VolID s) (Size s) ret] @
            (if ret = None then [] else [ErrorLog ''failed to expand volume''])"
proof -
  let ?snap = "\<lparr>SnapshotID = SnapshotID snap, SnapSubVolume = SnapSubVolume snap\<rparr>"
  note defs = CreateCloneFromSnapshot_main_def fs_calls Let_def GetCloneState_run
  obtain r2 w2 where o2: "CloneSnapshot_op B ?snap s w = (r2, w2)" by fastforce
  obtain r3 w3 where o3: "GetFSAdmin_op B w2 = (r3, w3)" by fastforce
  obtain r4 w4 where o4: "CloneStatus_op B (FsName s) (SubvolumeGroup s) (VolID s) w3 = (r4, w4)"
    by fastforce
  obtain r5 w5 where o5: "ExpandVolume_op B s (Size s) w4 = (r5, w5)" by fastforce
  show thesis
  proof (cases r2)
    case (Some e)
    with run o2 show thesis by (intro clone_failed[of e]) (auto simp: defs)
  next
    case n2: None
    show thesis
    proof (cases r3)
      case (Some e)
      with run o2 n2 o3 show thesis by (intro admin_failed[of e]) (auto simp: defs)
    next
      case n3: None
      show thesis
      proof (cases r4)
        case (Inl e)
        with run o2 n2 o3 n3 o4 show thesis by (intro status_failed[of e]) (auto simp: defs)
      next
        case i4: (Inr st)
        show thesis
        proof (cases "ToError (state_from_status st)")
          case (Some e)
          with run o2 n2 o3 n3 o4 i4 show thesis
            by (intro not_complete[of e st]) (auto simp: defs)
        next
          case n5: None
          with run o2 n2 o3 n3 o4 i4 o5 show thesis
            by (intro expanded[of st]) (auto simp: defs split: option.splits)
        qed
      qed
    qed
  qed
qed

lemma snapshot_run:
  assumes "CreateCloneFromSnapshot B s snap (w, []) = (r, (w', tr))"
  shows "\<exists>reg w1 tr1.
    CreateCloneFromSnapshot_main B s snap (w, []) = (r, reg, (w1, tr1)) \<and>
    (reg \<and> (\<exists>e. r = Some e \<and> \<not> IsCloneRetryError e) \<longrightarrow>
       (\<exists>r1. tr = tr1 @ [PurgeVolume_call (VolID s) True r1] @
                  (if r1 = None then [] else [ErrorLog ''failed to delete volume'']))) \<and>
    (\<not> (reg \<and> (\<exists>e. r = Some e \<and> \<not> IsCloneRetryError e)) \<longrightarrow> tr = tr1 \<and> w' = w1)"
proof -
  obtain reg w1 tr1 where m: "CreateCloneFromSnapshot_main B s snap (w, []) = (r, reg, (w1, tr1))"
    using assms by (auto simp: CreateCloneFromSnapshot_def split: prod.splits if_splits)
  have c: "\<exists>r1. tr = tr1 @ [PurgeVolume_call (VolID s) True r1] @
                  (if r1 = None then [] else [ErrorLog ''failed to delete volume''])"
    if "reg \<and> (\<exists>e. r = Some e \<and> \<not> IsCloneRetryError e)"
    using that assms m
    by (intro exI[of _ "fst (PurgeVolume_op B s True w1)"])
       (auto simp: CreateCloneFromSnapshot_def CreateCloneFromSnapshot_deferred_def fs_calls)
  have n: "tr = tr1 \<and> w' = w1"
    if "\<not> (reg \<and> (\<exists>e. r = Some e \<and> \<not> IsCloneRetryError e))"
    using that assms m
    by (cases r) (auto simp: CreateCloneFromSnapshot_def 
        CreateCloneFromSnapshot_deferred_def split: if_splits)
  from m c n show ?thesis by blast
qed

lemma snapshot_retry:
  assumes run: "CreateCloneFromSnapshot B s snap (w, []) = (r, (w', tr))"
      and st: "CloneStatus_call f g v (Inr st) \<in> set tr"
      and retry: "State st = ClonePending \<or> State st = CloneInProgress"
  shows "r = Some (if State st = ClonePending then ErrClonePending else ErrCloneInProgress) \<and>
         (\<forall>e \<in> set tr. \<not> is_PurgeVolume e \<and> \<not> is_DeleteSnapshot e)"
proof -
  from snapshot_run[OF run] obtain reg w1 tr1 where
    m: "CreateCloneFromSnapshot_main B s snap (w, []) = (r, reg, (w1, tr1))" and
    comp: "reg \<and> (\<exists>e. r = Some e \<and> \<not> IsCloneRetryError e) \<Longrightarrow>
       \<exists>r1. tr = tr1 @ [PurgeVolume_call (VolID s) True r1] @
                  (if r1 = None then [] else [ErrorLog ''failed to delete volume''])" and
    nocomp: "\<not> (reg \<and> (\<exists>e. r = Some e \<and> \<not> IsCloneRetryError e)) \<Longrightarrow> tr = tr1 \<and> w' = w1"
    by blast
  note R = ToError_retry_state[OF retry]
  from m show ?thesis
  proof (cases rule: snapshot_main_cases)
    case (clone_failed e)
    with nocomp st show ?thesis by auto
  next
    case (admin_failed e)
    with comp nocomp st show ?thesis
      by (cases "IsCloneRetryError e") (auto split: if_splits)
  next
    case (status_failed e)
    with comp nocomp st show ?thesis
      by (cases "IsCloneRetryError e") (auto split: if_splits)
  next
    case (not_complete e st')
    show ?thesis
    proof (cases "IsCloneRetryError e")
      case True
      with not_complete nocomp st R show ?thesis by auto
    next
      case False
      with not_complete comp st have "st' = st" by (auto split: if_splits)
      with not_complete R False retry show ?thesis
        by (auto simp: IsCloneRetryError_def clone_states)
    qed
  next
    case (expanded st')
    have "st' = st"
    proof (cases r)
      case None
      with expanded nocomp st show ?thesis by auto
    next
      case (Some e)
      with expanded comp nocomp st show ?thesis
        by (cases "IsCloneRetryError e") (auto split: if_splits)
    qed
    with expanded R show ?thesis by simp
  qed
qed

lemma subvolume_requests:
  assumes run: "CreateCloneFromSubvolume B s p (w, []) = (r, (w', tr))"
  shows "set (snapshots_requested tr) \<subseteq> {(VolID s, VolID p)} \<and>
         set (clones_requested tr) \<subseteq> {(VolID s, VolID p, VolID s)}"
proof -
  from subvolume_run[OF run] obtain reg w1 tr1 where
    m: "CreateCloneFromSubvolume_main B s p (w, []) = (r, reg, (w1, tr1))" and
    tr: "tr = tr1 \<or> (\<exists>r1 r2. tr = tr1 @ [PurgeVolume_call (VolID s) True r1] @
                  (if r1 = None then [] else [ErrorLog ''failed to delete volume'']) @
                  [DeleteSnapshot_call (VolID s) (VolID p) r2] @
                  (if r2 = None then [] else [ErrorLog ''failed to delete snapshot'']))"
    by blast
  have "set (snapshots_requested tr1) \<subseteq> {(VolID s, VolID p)} \<and>
        set (clones_requested tr1) \<subseteq> {(VolID s, VolID p, VolID s)}"
    using m by (cases rule: subvolume_main_cases) auto
  moreover have "snapshots_requested tr = snapshots_requested tr1 \<and>
      clones_requested tr = clones_requested tr1"
    using tr
  proof (elim disjE exE)
    fix r1 r2 :: "error option"
    assume "tr = tr1 @ [PurgeVolume_call (VolID s) True r1] @
                  (if r1 = None then [] else [ErrorLog ''failed to delete volume'']) @
                  [DeleteSnapshot_call (VolID s) (VolID p) r2] @
                  (if r2 = None then [] else [ErrorLog ''failed to delete snapshot''])"
    then show ?thesis
      by (simp add: snapshots_requested_append clones_requested_append)
  qed simp
  ultimately show ?thesis by simp
qed

lemma snapshot_requests:
  assumes run: "CreateCloneFromSnapshot B s snap (w, []) = (r, (w', tr))"
  shows "snapshots_requested tr = [] \<and>
         set (clones_requested tr) \<subseteq> {(SnapshotID snap, VolID (SnapSubVolume snap), VolID s)}"
proof -
  from snapshot_run[OF run] obtain reg w1 tr1 where
    m: "CreateCloneFromSnapshot_main B s snap (w, []) = (r, reg, (w1, tr1))" and
    tr: "tr = tr1 \<or> (\<exists>r1. tr = tr1 @ [PurgeVolume_call (VolID s) True r1] @
                  (if r1 = None then [] else [ErrorLog ''failed to delete volume'']))"
    by blast
  have "snapshots_requested tr1 = [] \<and>
        set (clones_requested tr1) \<subseteq> {(SnapshotID snap, VolID (SnapSubVolume snap), VolID s)}"
    using m by (cases rule: snapshot_main_cases) auto
  moreover have "snapshots_requested tr = snapshots_requested tr1 \<and>
      clones_requested tr = clones_requested tr1"
    using tr
  proof (elim disjE exE)
    fix r1 :: "error option"
    assume "tr = tr1 @ [PurgeVolume_call (VolID s) True r1] @
                  (if r1 = None then [] else [ErrorLog ''failed to delete volume''])"
    then show ?thesis
      by (simp add: snapshots_requested_append clones_requested_append)
  qed simp
  ultimately show ?thesis by simp
qed

lemmas demo_defs = demo_fs_def status_of_def target_vol_def parent_vol_def world0_def injected_def
  CreateCloneFromSubvolume_def CreateCloneFromSubvolume_main_def CreateCloneFromSubvolume_deferred_def
  CreateCloneFromSnapshot_def CreateCloneFromSnapshot_main_def CreateCloneFromSnapshot_deferred_def
  fs_calls GetCloneState_run state_from_status_def ToError_def clone_states IsCloneRetryError_def
  Let_def

subsection \<open>Classification of the clone state\<close>

text \<open>
  The states the switch of \<^verbatim>\<open>ToError\<close> names: Complete gives no error, InProgress the
  retryable error CloneInProgress, Pending the retryable error ClonePending, Failed the
  terminal error CloneFailed carrying the backend message and error code, and the state
  of the sentinel \<^verbatim>\<open>CephFSCloneError\<close> (the empty state) the terminal error
  InvalidClone carrying message and code. The two retryable errors are retryable for
  \<^verbatim>\<open>IsCloneRetryError\<close>, the two terminal ones are not.
\<close>

lemma ToError_classification:
  "(state cs = CloneComplete \<longrightarrow> ToError cs = None) \<and>
   (state cs = CloneInProgress \<longrightarrow>
      ToError cs = Some ErrCloneInProgress \<and> IsCloneRetryError ErrCloneInProgress) \<and>
   (state cs = ClonePending \<longrightarrow>
      ToError cs = Some ErrClonePending \<and> IsCloneRetryError ErrClonePending) \<and>
   (state cs = CloneFailed \<longrightarrow>
      ToError cs = Some (Wrapf ''%w: %s (%s)'' [errorMsg cs, errno cs] ErrCloneFailed) \<and>
      errors_Is (Wrapf ''%w: %s (%s)'' [errorMsg cs, errno cs] ErrCloneFailed) ErrCloneFailed \<and>
      \<not> IsCloneRetryError (Wrapf ''%w: %s (%s)'' [errorMsg cs, errno cs] ErrCloneFailed)) \<and>
   (state cs = state CephFSCloneError \<longrightarrow>
      ToError cs = Some (Wrapf ''%w: %s (%s)'' [errorMsg cs, errno cs] ErrInvalidClone) \<and>
      errors_Is (Wrapf ''%w: %s (%s)'' [errorMsg cs, errno cs] ErrInvalidClone) ErrInvalidClone \<and>
      \<not> IsCloneRetryError (Wrapf ''%w: %s (%s)'' [errorMsg cs, errno cs] ErrInvalidClone))"
  by (simp add: ToError_def clone_states IsCloneRetryError_def)

text \<open>The classification at one state of each kind.\<close>

lemma ToError_classification_examples:
  "ToError (state_from_status (status_of CloneComplete)) = None \<and>
   ToError (state_from_status (status_of CloneInProgress)) = Some ErrCloneInProgress \<and>
   ToError (state_from_status (status_of ClonePending)) = Some ErrClonePending \<and>
   ToError (state_from_status (status_of CloneFailed)) =
     Some (Wrapf ''%w: %s (%s)'' [''EIO'', ''5''] ErrCloneFailed) \<and>
   ToError CephFSCloneError = Some (Wrapf ''%w: %s (%s)'' [[], []] ErrInvalidClone)"
  using ToError_classification [of "state_from_status (status_of CloneComplete)"]
    ToError_classification [of "state_from_status (status_of CloneInProgress)"]
    ToError_classification [of "state_from_status (status_of ClonePending)"]
    ToError_classification [of "state_from_status (status_of CloneFailed)"]
    ToError_classification [of CephFSCloneError]
  by (simp add: state_from_status_def status_of_def clone_states)

text \<open>
  Claim C1 at a failing input. The backend reports the clone state \<open>canceled\<close>, which
  is none of the four named states and not the empty state of the sentinel. The switch
  of \<^verbatim>\<open>ToError\<close> matches no case and the function returns \<^verbatim>\<open>nil\<close> after it: the
  state is classified as success, not as InvalidClone. \<^verbatim>\<open>CreateCloneFromSubvolume\<close>
  then goes on as for a completed clone: it resizes the volume, deletes the intermediate
  snapshot and returns no error.
\<close>

theorem ToError_unrecognized_state_is_success:
  "state canceled_state \<noteq> CloneComplete \<and> state canceled_state \<noteq> CloneInProgress \<and>
   state canceled_state \<noteq> ClonePending \<and> state canceled_state \<noteq> CloneFailed \<and>
   state canceled_state \<noteq> state CephFSCloneError \<and>
   ToError canceled_state = None \<and>
   ToError canceled_state \<noteq>
     Some (Wrapf ''%w: %s (%s)'' [errorMsg canceled_state, errno canceled_state] ErrInvalidClone) \<and>
   CreateCloneFromSubvolume (demo_fs (status_of ''canceled'') []) target_vol parent_vol (world0, []) =
     (None,
      (world0(''clone'' \<mapsto> 50),
       [CreateSnapshot_call ''clone'' ''parent'' None,
        CloneSnapshot_call ''clone'' ''parent'' ''clone'' None,
        GetFSAdmin_call None,
        CloneStatus_call ''fs'' ''csi'' ''clone'' (Inr (status_of ''canceled'')),
        ExpandVolume_call ''clone'' 50 None,
        DeleteSnapshot_call ''clone'' ''parent'' None]))"
  by (simp add: demo_defs canceled_state_def fun_eq_iff)

subsection \<open>Retryable clone states\<close>

text \<open>
  Claim C3. In every run of \<^verbatim>\<open>CreateCloneFromSubvolume\<close> or
  \<^verbatim>\<open>CreateCloneFromSnapshot\<close> in which the backend reports the clone state Pending or
  InProgress, the function returns the retryable error of that state, and the log holds
  neither a purge of the target volume nor a deletion of the snapshot. A second run of
  the same operation from the resulting world asks the backend for the same snapshot and
  the same clone, by the same names, as the first: no second snapshot and no second clone
  is named (\<^verbatim>\<open>CreateCloneFromSnapshot\<close> creates no snapshot at all).
\<close>

theorem retryable_state_no_compensation:
  assumes retry: "State st = ClonePending \<or> State st = CloneInProgress"
  shows
   "(CreateCloneFromSubvolume B s p (w, []) = (r, (w', tr)) \<and>
     CloneStatus_call f g v (Inr st) \<in> set tr \<longrightarrow>
       r = Some (if State st = ClonePending then ErrClonePending else ErrCloneInProgress) \<and>
       (\<forall>e \<in> set tr. \<not> is_PurgeVolume e \<and> \<not> is_DeleteSnapshot e) \<and>
       (\<forall>r2 w2 tr2. CreateCloneFromSubvolume B s p (w', []) = (r2, (w2, tr2)) \<longrightarrow>
          set (snapshots_requested (tr @ tr2)) \<subseteq> {(VolID s, VolID p)} \<and>
          set (clones_requested (tr @ tr2)) \<subseteq> {(VolID s, VolID p, VolID s)})) \<and>
    (CreateCloneFromSnapshot B s snap (u, []) = (q, (u', ts)) \<and>
     CloneStatus_call f' g' v' (Inr st) \<in> set ts \<longrightarrow>
       q = Some (if State st = ClonePending then ErrClonePending else ErrCloneInProgress) \<and>
       (\<forall>e \<in> set ts. \<not> is_PurgeVolume e \<and> \<not> is_DeleteSnapshot e) \<and>
       (\<forall>q2 u2 ts2. CreateCloneFromSnapshot B s snap (u', []) = (q2, (u2, ts2)) \<longrightarrow>
          snapshots_requested (ts @ ts2) = [] \<and>
          set (clones_requested (ts @ ts2)) \<subseteq>
            {(SnapshotID snap, VolID (SnapSubVolume snap), VolID s)}))"
proof (intro conjI impI allI; (elim conjE)?)
  assume run: "CreateCloneFromSubvolume B s p (w, []) = (r, (w', tr))"
     and st: "CloneStatus_call f g v (Inr st) \<in> set tr"
  from subvolume_retry[OF run st retry]
  show "r = Some (if State st = ClonePending then ErrClonePending else ErrCloneInProgress)"
    and "\<forall>e \<in> set tr. \<not> is_PurgeVolume e \<and> \<not> is_DeleteSnapshot e"
    by simp_all
  fix r2 w2 tr2
  assume again: "CreateCloneFromSubvolume B s p (w', []) = (r2, (w2, tr2))"
  from subvolume_requests[OF run] subvolume_requests[OF again]
  show "set (snapshots_requested (tr @ tr2)) \<subseteq> {(VolID s, VolID p)}"
    and "set (clones_requested (tr @ tr2)) \<subseteq> {(VolID s, VolID p, VolID s)}"
    by (simp_all add: snapshots_requested_append clones_requested_append)
next
  assume run: "CreateCloneFromSnapshot B s snap (u, []) = (q, (u', ts))"
     and st: "CloneStatus_call f' g' v' (Inr st) \<in> set ts"
  from snapshot_retry[OF run st retry]
  show "q = Some (if State st = ClonePending then ErrClonePending else ErrCloneInProgress)"
    and "\<forall>e \<in> set ts. \<not> is_PurgeVolume e \<and> \<not> is_DeleteSnapshot e"
    by simp_all
  fix q2 u2 ts2
  assume again: "CreateCloneFromSnapshot B s snap (u', []) = (q2, (u2, ts2))"
  from snapshot_requests[OF run] snapshot_requests[OF again]
  show "snapshots_requested (ts @ ts2) = []"
    and "set (clones_requested (ts @ ts2)) \<subseteq>
            {(SnapshotID snap, VolID (SnapSubVolume snap), VolID s)}"
    by (simp_all add: snapshots_requested_append clones_requested_append)
qed


text \<open>A run against a backend whose clone is pending.\<close>

theorem retryable_state_no_compensation_witness:
  "State (status_of ClonePending) = ClonePending \<and>
   CloneStatus_call ''fs'' ''csi'' ''clone'' (Inr (status_of ClonePending)) \<in>
     set (snd (snd (CreateCloneFromSubvolume (demo_fs (status_of ClonePending) []) target_vol parent_vol (world0, [])))) \<and>
   fst (CreateCloneFromSubvolume (demo_fs (status_of ClonePending) []) target_vol parent_vol (world0, [])) = Some ErrClonePending \<and>
   filter is_PurgeVolume (snd (snd (CreateCloneFromSubvolume (demo_fs (status_of ClonePending) []) target_vol parent_vol (world0, [])))) = [] \<and>
   filter is_DeleteSnapshot (snd (snd (CreateCloneFromSubvolume (demo_fs (status_of ClonePending) []) target_vol parent_vol (world0, [])))) = [] \<and>
   snapshots_requested (snd (snd (CreateCloneFromSubvolume (demo_fs (status_of ClonePending) []) target_vol parent_vol (world0, []))) @ snd (snd (CreateCloneFromSubvolume (demo_fs (status_of ClonePending) []) target_vol parent_vol (fst (snd (CreateCloneFromSubvolume (demo_fs (status_of ClonePending) []) target_vol parent_vol (world0, []))), [])))) =
     [(''clone'', ''parent''), (''clone'', ''parent'')] \<and>
   clones_requested (snd (snd (CreateCloneFromSubvolume (demo_fs (status_of ClonePending) []) target_vol parent_vol (world0, []))) @ snd (snd (CreateCloneFromSubvolume (demo_fs (status_of ClonePending) []) target_vol parent_vol (fst (snd (CreateCloneFromSubvolume (demo_fs (status_of ClonePending) []) target_vol parent_vol (world0, []))), [])))) =
     [(''clone'', ''parent'', ''clone''), (''clone'', ''parent'', ''clone'')] \<and>
   CloneStatus_call ''fs'' ''csi'' ''clone'' (Inr (status_of ClonePending)) \<in>
     set (snd (snd (CreateCloneFromSnapshot (demo_fs (status_of ClonePending) []) target_vol (NewSnapshot ''snap-1'' parent_vol) (world0, [])))) \<and>
   fst (CreateCloneFromSnapshot (demo_fs (status_of ClonePending) []) target_vol (NewSnapshot ''snap-1'' parent_vol) (world0, [])) = Some ErrClonePending \<and>
   filter is_PurgeVolume (snd (snd (CreateCloneFromSnapshot (demo_fs (status_of ClonePending) []) target_vol (NewSnapshot ''snap-1'' parent_vol) (world0, [])))) = [] \<and>
   clones_requested (snd (snd (CreateCloneFromSnapshot (demo_fs (status_of ClonePending) []) target_vol (NewSnapshot ''snap-1'' parent_vol) (world0, []))) @ snd (snd (CreateCloneFromSnapshot (demo_fs (status_of ClonePending) []) target_vol (NewSnapshot ''snap-1'' parent_vol) (fst (snd (CreateCloneFromSnapshot (demo_fs (status_of ClonePending) []) target_vol (NewSnapshot ''snap-1'' parent_vol) (world0, []))), [])))) =
     [(''snap-1'', ''parent'', ''clone''), (''snap-1'', ''parent'', ''clone'')]"
  using retryable_state_no_compensation
    [where st = "status_of ClonePending" and B = "demo_fs (status_of ClonePending) []"
       and s = target_vol and p = parent_vol and w = world0 and u = world0
       and snap = "NewSnapshot ''snap-1'' parent_vol"
       and f = "''fs''" and g = "''csi''" and v = "''clone''"
       and f' = "''fs''" and g' = "''csi''" and v' = "''clone''"
       and r = "fst (CreateCloneFromSubvolume (demo_fs (status_of ClonePending) []) target_vol parent_vol (world0, []))"
       and w' = "fst (snd (CreateCloneFromSubvolume (demo_fs (status_of ClonePending) []) target_vol parent_vol (world0, [])))"
       and tr = "snd (snd (CreateCloneFromSubvolume (demo_fs (status_of ClonePending) []) target_vol parent_vol (world0, [])))"
       and q = "fst (CreateCloneFromSnapshot (demo_fs (status_of ClonePending) []) target_vol (NewSnapshot ''snap-1'' parent_vol) (world0, []))"
       and u' = "fst (snd (CreateCloneFromSnapshot (demo_fs (status_of ClonePending) []) target_vol (NewSnapshot ''snap-1'' parent_vol) (world0, [])))"
       and ts = "snd (snd (CreateCloneFromSnapshot (demo_fs (status_of ClonePending) []) target_vol (NewSnapshot ''snap-1'' parent_vol) (world0, [])))"]
  by (simp add: demo_defs)

subsection \<open>Compensation of CreateCloneFromSubvolume\<close>

text \<open>
  Claim C4 as stated fails: when the creation of the snapshot itself fails, the function
  returns that error before the \<^verbatim>\<open>defer\<close> statement is reached, so a terminal error
  is returned and nothing is purged or deleted.
\<close>

theorem compensation_skipped_counterexample:
  "CreateCloneFromSubvolume (demo_fs (status_of CloneComplete) [''CreateSnapshot''])
       target_vol parent_vol (world0, []) =
     (Some (Other ''CreateSnapshot''),
      (world0, [CreateSnapshot_call ''clone'' ''parent'' (Some (Other ''CreateSnapshot'')),
                ErrorLog ''failed to create snapshot''])) \<and>
   \<not> IsCloneRetryError (Other ''CreateSnapshot'')"
  by (simp add: demo_defs)

text \<open>
  Claim C4, as amended. When the snapshot was created and \<^verbatim>\<open>CreateCloneFromSubvolume\<close>
  ends with an error that is not retryable, the compensator runs exactly once, after the
  statements of the function: it purges the target volume and then deletes the snapshot,
  whatever the purge returned; a failure of either step adds a line to the log and nothing
  else; and the function returns the error its statements ended with. When the creation
  of the snapshot fails, the function returns that error and has made no other call.
\<close>

theorem compensation_once_after_snapshot:
  assumes run: "CreateCloneFromSubvolume B s p (w, []) = (r, (w', tr))"
  shows "(\<forall>e. r = Some e \<and> \<not> IsCloneRetryError e \<and>
              CreateSnapshot_call (VolID s) (VolID p) None \<in> set tr \<longrightarrow>
           (\<exists>w1 tr1 r1 r2.
              CreateCloneFromSubvolume_main B s p (w, []) = (Some e, True, (w1, tr1)) \<and>
              filter is_PurgeVolume tr1 = [] \<and>
              tr = tr1 @ [PurgeVolume_call (VolID s) True r1] @
                     (if r1 = None then [] else [ErrorLog ''failed to delete volume'']) @
                     [DeleteSnapshot_call (VolID s) (VolID p) r2] @
                     (if r2 = None then [] else [ErrorLog ''failed to delete snapshot'']))) \<and>
         (\<forall>e. CreateSnapshot_call (VolID s) (VolID p) (Some e) \<in> set tr \<longrightarrow>
            r = Some e \<and>
            tr = [CreateSnapshot_call (VolID s) (VolID p) (Some e),
                  ErrorLog ''failed to create snapshot''])"
proof -
  from subvolume_run[OF run] obtain reg w1 tr1 where
    m: "CreateCloneFromSubvolume_main B s p (w, []) = (r, reg, (w1, tr1))" and
    comp: "reg \<and> (\<exists>e. r = Some e \<and> \<not> IsCloneRetryError e) \<Longrightarrow>
       \<exists>r1 r2. tr = tr1 @ [PurgeVolume_call (VolID s) True r1] @
                  (if r1 = None then [] else [ErrorLog ''failed to delete volume'']) @
                  [DeleteSnapshot_call (VolID s) (VolID p) r2] @
                  (if r2 = None then [] else [ErrorLog ''failed to delete snapshot''])" and
    nocomp: "\<not> (reg \<and> (\<exists>e. r = Some e \<and> \<not> IsCloneRetryError e)) \<Longrightarrow> tr = tr1"
    by blast
  have a: "\<exists>w1 tr1 r1 r2.
              CreateCloneFromSubvolume_main B s p (w, []) = (Some e, True, (w1, tr1)) \<and>
              filter is_PurgeVolume tr1 = [] \<and>
              tr = tr1 @ [PurgeVolume_call (VolID s) True r1] @
                     (if r1 = None then [] else [ErrorLog ''failed to delete volume'']) @
                     [DeleteSnapshot_call (VolID s) (VolID p) r2] @
                     (if r2 = None then [] else [ErrorLog ''failed to delete snapshot''])"
    if t: "r = Some e \<and> \<not> IsCloneRetryError e \<and>
           CreateSnapshot_call (VolID s) (VolID p) None \<in> set tr" for e
  proof -
    have rg: "reg \<and> filter is_PurgeVolume tr1 = []"
      using m
    proof (cases rule: subvolume_main_cases)
      case (create_failed e')
      with nocomp t show ?thesis by auto
    qed auto
    with comp t obtain r1 r2 where
      tr: "tr = tr1 @ [PurgeVolume_call (VolID s) True r1] @
                  (if r1 = None then [] else [ErrorLog ''failed to delete volume'']) @
                  [DeleteSnapshot_call (VolID s) (VolID p) r2] @
                  (if r2 = None then [] else [ErrorLog ''failed to delete snapshot''])"
      by blast
    from m rg tr t show ?thesis
      by (intro exI[of _ w1] exI[of _ tr1] exI[of _ r1] exI[of _ r2]) simp
  qed
  have b: "r = Some e \<and>
            tr = [CreateSnapshot_call (VolID s) (VolID p) (Some e),
                  ErrorLog ''failed to create snapshot'']"
    if t: "CreateSnapshot_call (VolID s) (VolID p) (Some e) \<in> set tr" for e
    using m
  proof (cases rule: subvolume_main_cases)
    case (create_failed e')
    with nocomp t show ?thesis by auto
  next
    case (deleted st w3 w4)
    show ?thesis
    proof (cases "reg \<and> (\<exists>e. r = Some e \<and> \<not> IsCloneRetryError e)")
      case True
      from comp[OF True] deleted t show ?thesis by (auto split: if_splits)
    next
      case False
      from nocomp[OF False] deleted t show ?thesis by (auto split: if_splits)
    qed
  next
    case (clone_failed e')
    show ?thesis
    proof (cases "reg \<and> (\<exists>e. r = Some e \<and> \<not> IsCloneRetryError e)")
      case True
      from comp[OF True] clone_failed t show ?thesis by (auto split: if_splits)
    next
      case False
      from nocomp[OF False] clone_failed t show ?thesis by auto
    qed
  next
    case (admin_failed e')
    show ?thesis
    proof (cases "reg \<and> (\<exists>e. r = Some e \<and> \<not> IsCloneRetryError e)")
      case True
      from comp[OF True] admin_failed t show ?thesis by (auto split: if_splits)
    next
      case False
      from nocomp[OF False] admin_failed t show ?thesis by auto
    qed
  next
    case (status_failed e')
    show ?thesis
    proof (cases "reg \<and> (\<exists>e. r = Some e \<and> \<not> IsCloneRetryError e)")
      case True
      from comp[OF True] status_failed t show ?thesis by (auto split: if_splits)
    next
      case False
      from nocomp[OF False] status_failed t show ?thesis by auto
    qed
  next
    case (not_complete e' st)
    show ?thesis
    proof (cases "reg \<and> (\<exists>e. r = Some e \<and> \<not> IsCloneRetryError e)")
      case True
      from comp[OF True] not_complete t show ?thesis by (auto split: if_splits)
    next
      case False
      from nocomp[OF False] not_complete t show ?thesis by auto
    qed
  next
    case (expand_failed e' st)
    show ?thesis
    proof (cases "reg \<and> (\<exists>e. r = Some e \<and> \<not> IsCloneRetryError e)")
      case True
      from comp[OF True] expand_failed t show ?thesis by (auto split: if_splits)
    next
      case False
      from nocomp[OF False] expand_failed t show ?thesis by auto
    qed
  qed
  from a b show ?thesis by blast
qed

text \<open>
  A failed clone whose purge and snapshot deletion fail too, and a snapshot that cannot be
  created.
\<close>

theorem compensation_once_after_snapshot_witness:
  "CreateCloneFromSubvolume (demo_fs (status_of CloneFailed) [''PurgeVolume'', ''DeleteSnapshot''])
       target_vol parent_vol (world0, []) =
     (Some (Wrapf ''%w: %s (%s)'' [''EIO'', ''5''] ErrCloneFailed),
      (world0(''clone'' \<mapsto> 100),
       [CreateSnapshot_call ''clone'' ''parent'' None,
        CloneSnapshot_call ''clone'' ''parent'' ''clone'' None,
        GetFSAdmin_call None,
        CloneStatus_call ''fs'' ''csi'' ''clone'' (Inr (status_of CloneFailed)),
        ErrorLog ''clone did not complete'',
        PurgeVolume_call ''clone'' True (Some (Other ''PurgeVolume'')),
        ErrorLog ''failed to delete volume'',
        DeleteSnapshot_call ''clone'' ''parent'' (Some (Other ''DeleteSnapshot'')),
        ErrorLog ''failed to delete snapshot''])) \<and>
   \<not> IsCloneRetryError (Wrapf ''%w: %s (%s)'' [''EIO'', ''5''] ErrCloneFailed) \<and>
   CreateCloneFromSubvolume (demo_fs (status_of CloneComplete) [''CreateSnapshot''])
       target_vol parent_vol (world0, []) =
     (Some (Other ''CreateSnapshot''),
      (world0, [CreateSnapshot_call ''clone'' ''parent'' (Some (Other ''CreateSnapshot'')),
                ErrorLog ''failed to create snapshot'']))"
  using compensation_once_after_snapshot
    [where B = "demo_fs (status_of CloneFailed) [''PurgeVolume'', ''DeleteSnapshot'']"
       and s = target_vol and p = parent_vol and w = world0
       and r = "Some (Wrapf ''%w: %s (%s)'' [''EIO'', ''5''] ErrCloneFailed)"
       and w' = "world0(''clone'' \<mapsto> 100)"
       and tr = "[CreateSnapshot_call ''clone'' ''parent'' None,
        CloneSnapshot_call ''clone'' ''parent'' ''clone'' None,
        GetFSAdmin_call None,
        CloneStatus_call ''fs'' ''csi'' ''clone'' (Inr (status_of CloneFailed)),
        ErrorLog ''clone did not complete'',
        PurgeVolume_call ''clone'' True (Some (Other ''PurgeVolume'')),
        ErrorLog ''failed to delete volume'',
        DeleteSnapshot_call ''clone'' ''parent'' (Some (Other ''DeleteSnapshot'')),
        ErrorLog ''failed to delete snapshot'']"]
    compensation_once_after_snapshot
    [where B = "demo_fs (status_of CloneComplete) [''CreateSnapshot'']"
       and s = target_vol and p = parent_vol and w = world0
       and r = "Some (Other ''CreateSnapshot'')" and w' = world0
       and tr = "[CreateSnapshot_call ''clone'' ''parent'' (Some (Other ''CreateSnapshot'')),
                ErrorLog ''failed to create snapshot'']"]
  by (simp add: demo_defs fun_eq_iff)

subsection \<open>Completed clones\<close>

text \<open>
  Claim C5. The log of \<^verbatim>\<open>CreateCloneFromSubvolume\<close> is the log of its statements
  followed by that of the compensator, which begins with the purge. In the statements:
  whenever the backend reports the clone Complete, the volume is resized to the size the
  caller asked for (\<open>Size s\<close>, whatever the size of the parent); the snapshot is deleted
  only after a successful creation of the snapshot, a successful clone, a successful state
  query classified as no error and a successful resize to \<open>Size s\<close>, in this order. When
  the function succeeds on a backend whose successful resize leaves the volume at the
  size asked for and whose snapshot deletion leaves volume sizes alone (\<open>vsize\<close> reads
  the size of the new volume off the world), the new volume has the requested size.
\<close>

theorem completed_clone_resized_then_snapshot_deleted:
  assumes main: "CreateCloneFromSubvolume_main B s p (w, []) = (ret, reg, (w1, tr1))"
      and full: "CreateCloneFromSubvolume B s p (w, []) = (r, (w', tr))"
  shows "r = ret \<and>
    (\<exists>comp. tr = tr1 @ comp \<and>
       (comp = [] \<or> (\<exists>x rest. comp = PurgeVolume_call (VolID s) True x # rest))) \<and>
    (CloneStatus_call f g v (Inr st) \<in> set tr1 \<and> State st = CloneComplete \<longrightarrow>
       (\<exists>x. ExpandVolume_call (VolID s) (Size s) x \<in> set tr1)) \<and>
    (DeleteSnapshot_call a b d \<in> set tr1 \<longrightarrow>
       (\<exists>st'. ToError (state_from_status st') = None \<and>
          tr1 = [CreateSnapshot_call (VolID s) (VolID p) None,
                 CloneSnapshot_call (VolID s) (VolID p) (VolID s) None,
                 GetFSAdmin_call None,
                 CloneStatus_call (FsName s) (SubvolumeGroup s) (VolID s) (Inr st'),
                 ExpandVolume_call (VolID s) (Size s) None,
                 DeleteSnapshot_call (VolID s) (VolID p) d] @
                (if d = None then [] else [ErrorLog ''failed to delete snapshot'']))) \<and>
    (r = None \<and>
     (\<forall>n u u'. ExpandVolume_op B s n u = (None, u') \<longrightarrow> vsize u' = Some n) \<and>
     (\<forall>sn u u'. DeleteSnapshot_op B sn u = (None, u') \<longrightarrow> vsize u' = vsize u) \<longrightarrow>
       vsize w' = Some (Size s))"
proof -
  from subvolume_run[OF full] obtain reg' w1' tr1' where
    m': "CreateCloneFromSubvolume_main B s p (w, []) = (r, reg', (w1', tr1'))" and
    comp': "reg' \<and> (\<exists>e. r = Some e \<and> \<not> IsCloneRetryError e) \<longrightarrow>
       (\<exists>r1 r2. tr = tr1' @ [PurgeVolume_call (VolID s) True r1] @
                  (if r1 = None then [] else [ErrorLog ''failed to delete volume'']) @
                  [DeleteSnapshot_call (VolID s) (VolID p) r2] @
                  (if r2 = None then [] else [ErrorLog ''failed to delete snapshot'']))" and
    nocomp': "\<not> (reg' \<and> (\<exists>e. r = Some e \<and> \<not> IsCloneRetryError e)) \<longrightarrow> tr = tr1' \<and> w' = w1'"
    by blast
  from m' main have r: "r = ret" and eqs: "reg' = reg" "w1' = w1" "tr1' = tr1" by simp_all
  from comp' eqs have
    comp: "reg \<and> (\<exists>e. r = Some e \<and> \<not> IsCloneRetryError e) \<Longrightarrow>
       \<exists>r1 r2. tr = tr1 @ [PurgeVolume_call (VolID s) True r1] @
                  (if r1 = None then [] else [ErrorLog ''failed to delete volume'']) @
                  [DeleteSnapshot_call (VolID s) (VolID p) r2] @
                  (if r2 = None then [] else [ErrorLog ''failed to delete snapshot''])"
    by simp
  from nocomp' eqs have
    nocomp: "\<not> (reg \<and> (\<exists>e. r = Some e \<and> \<not> IsCloneRetryError e)) \<Longrightarrow> tr = tr1 \<and> w' = w1"
    by simp
  have c2: "\<exists>comp. tr = tr1 @ comp \<and>
       (comp = [] \<or> (\<exists>x rest. comp = PurgeVolume_call (VolID s) True x # rest))"
  proof (cases "reg \<and> (\<exists>e. r = Some e \<and> \<not> IsCloneRetryError e)")
    case True
    from comp[OF True] show ?thesis by auto
  next
    case False
    from nocomp[OF False] show ?thesis by simp
  qed
  have c3: "\<exists>x. ExpandVolume_call (VolID s) (Size s) x \<in> set tr1"
    if "CloneStatus_call f g v (Inr st) \<in> set tr1" "State st = CloneComplete"
    using main that
    by (cases rule: subvolume_main_cases) (auto simp: ToError_complete)
  have c4: "\<exists>st'. ToError (state_from_status st') = None \<and>
          tr1 = [CreateSnapshot_call (VolID s) (VolID p) None,
                 CloneSnapshot_call (VolID s) (VolID p) (VolID s) None,
                 GetFSAdmin_call None,
                 CloneStatus_call (FsName s) (SubvolumeGroup s) (VolID s) (Inr st'),
                 ExpandVolume_call (VolID s) (Size s) None,
                 DeleteSnapshot_call (VolID s) (VolID p) d] @
                (if d = None then [] else [ErrorLog ''failed to delete snapshot''])"
    if "DeleteSnapshot_call a b d \<in> set tr1"
    using main that
    by (cases rule: subvolume_main_cases) (auto split: if_splits)
  have c5: "vsize w' = Some (Size s)"
    if "r = None"
      "\<forall>n u u'. ExpandVolume_op B s n u = (None, u') \<longrightarrow> vsize u' = Some n"
      "\<forall>sn u u'. DeleteSnapshot_op B sn u = (None, u') \<longrightarrow> vsize u' = vsize u"
  proof -
    from that(1) nocomp have w: "w' = w1" by simp
    from main that(1) r obtain w3 w4 where
      "ExpandVolume_op B s (Size s) w3 = (None, w4)"
      "DeleteSnapshot_op B \<lparr>SnapshotID = VolID s, SnapSubVolume = p\<rparr> w4 = (None, w1)"
      by (cases rule: subvolume_main_cases) auto
    with that(2,3) w show ?thesis by metis
  qed
  from r c2 c3 c4 c5 show ?thesis by blast
qed

text \<open>A completed clone of a parent of size 100, requested with size 50.\<close>

theorem completed_clone_resized_then_snapshot_deleted_witness:
  "CreateCloneFromSubvolume_main (demo_fs (status_of CloneComplete) []) target_vol parent_vol (world0, []) =
     (None, True, (world0(''clone'' \<mapsto> 50),
       [CreateSnapshot_call ''clone'' ''parent'' None,
        CloneSnapshot_call ''clone'' ''parent'' ''clone'' None,
        GetFSAdmin_call None,
        CloneStatus_call ''fs'' ''csi'' ''clone'' (Inr (status_of CloneComplete)),
        ExpandVolume_call ''clone'' 50 None,
        DeleteSnapshot_call ''clone'' ''parent'' None])) \<and>
   CreateCloneFromSubvolume (demo_fs (status_of CloneComplete) []) target_vol parent_vol (world0, []) =
     (None, (world0(''clone'' \<mapsto> 50),
       [CreateSnapshot_call ''clone'' ''parent'' None,
        CloneSnapshot_call ''clone'' ''parent'' ''clone'' None,
        GetFSAdmin_call None,
        CloneStatus_call ''fs'' ''csi'' ''clone'' (Inr (status_of CloneComplete)),
        ExpandVolume_call ''clone'' 50 None,
        DeleteSnapshot_call ''clone'' ''parent'' None])) \<and>
   Size parent_vol = 100 \<and> Size target_vol = 50 \<and>
   (world0(''clone'' \<mapsto> 50)) ''clone'' = Some (Size target_vol)"
  using completed_clone_resized_then_snapshot_deleted
    [where B = "demo_fs (status_of CloneComplete) []"
       and s = target_vol and p = parent_vol and w = world0
       and ret = None and reg = True and r = None
       and ?w1.0 = "world0(''clone'' \<mapsto> 50)" and w' = "world0(''clone'' \<mapsto> 50)"
       and vsize = "\<lambda>u. u ''clone''"
       and f = "''fs''" and g = "''csi''" and v = "''clone''" and st = "status_of CloneComplete"
       and a = "''clone''" and b = "''parent''" and d = None
       and ?tr1.0 = "[CreateSnapshot_call ''clone'' ''parent'' None,
        CloneSnapshot_call ''clone'' ''parent'' ''clone'' None,
        GetFSAdmin_call None,
        CloneStatus_call ''fs'' ''csi'' ''clone'' (Inr (status_of CloneComplete)),
        ExpandVolume_call ''clone'' 50 None,
        DeleteSnapshot_call ''clone'' ''parent'' None]"
       and tr = "[CreateSnapshot_call ''clone'' ''parent'' None,
        CloneSnapshot_call ''clone'' ''parent'' ''clone'' None,
        GetFSAdmin_call None,
        CloneStatus_call ''fs'' ''csi'' ''clone'' (Inr (status_of CloneComplete)),
        ExpandVolume_call ''clone'' 50 None,
        DeleteSnapshot_call ''clone'' ''parent'' None]"]
  by (simp add: demo_defs fun_eq_iff)

section \<open>Verification: RBD volume groups\<close>

lemma effect_pair [simp]: "effect f e (w, tr) = (f w, tr @ [e])"
  by (simp add: effect_def)

lemma resolved_append: "resolved (xs @ ys) = resolved xs @ resolved ys"
  by (induction xs rule: resolved.induct) simp_all

lemma destroyed_append: "destroyed (xs @ ys) = destroyed xs @ destroyed ys"
  by (induction xs rule: destroyed.induct) simp_all

lemma journal_calls_append: "journal_calls (xs @ ys) = journal_calls xs @ journal_calls ys"
  by (induction xs rule: journal_calls.induct) simp_all

lemma resolutions_not_destroyed: "\<forall>e \<in> set R. is_resolution e \<Longrightarrow> destroyed R = []"
  by (induction R rule: destroyed.induct) auto

lemma destroy_volumes_trace:
  "snd (destroy_volumes B vs (w, tr)) = tr @ map Volume_Destroy_call vs"
  by (induction vs arbitrary: w tr) simp_all

lemma destroy_volumes_run:
  "destroy_volumes B vs (w, tr) = (w', tr') \<Longrightarrow> tr' = tr @ map Volume_Destroy_call vs"
  using destroy_volumes_trace[of B vs w tr] by simp

lemma destroyed_map_destroy: "destroyed (map Volume_Destroy_call vs) = vs"
  by (induction vs) simp_all

lemma resolved_map_destroy: "resolved (map Volume_Destroy_call vs) = []"
  by (induction vs) simp_all

lemma resolve_volumes_run:
  assumes "resolve_volumes B id' ids vols (w, tr) = ((e, vols'), (w', tr'))"
  shows "\<exists>R. (\<forall>ev \<in> set R. is_resolution ev) \<and> vols' = vols @ resolved R \<and>
           (case e of
              None \<Rightarrow> tr' = tr @ R
            | Some x \<Rightarrow> \<exists>i err. tr' = tr @ R @ [GetVolumeByID_call i (Inl err)] \<and>
                x = Wrapf ''failed to get attributes for volume group id %q: %w'' [id'] err)"
  using assms
proof (induction ids arbitrary: vols w tr)
  case Nil
  then show ?case by (intro exI[of _ "[]"]) auto
next
  case (Cons volID rest)
  obtain r w1 where o: "GetVolumeByID_op B volID w = (r, w1)" by fastforce
  show ?case
  proof (cases r)
    case (Inl err)
    with Cons.prems o show ?thesis by (intro exI[of _ "[]"]) auto
  next
    case (Inr vol)
    with Cons.prems o have
      "resolve_volumes B id' rest (vols @ [vol]) (w1, tr @ [GetVolumeByID_call volID (Inr vol)]) =
         ((e, vols'), (w', tr'))"
      by simp
    from Cons.IH[OF this] obtain R where
      R: "\<forall>ev \<in> set R. is_resolution ev" "vols' = (vols @ [vol]) @ resolved R"
         "case e of
              None \<Rightarrow> tr' = (tr @ [GetVolumeByID_call volID (Inr vol)]) @ R
            | Some x \<Rightarrow> \<exists>i err. tr' = (tr @ [GetVolumeByID_call volID (Inr vol)]) @ R @
                                         [GetVolumeByID_call i (Inl err)] \<and>
                x = Wrapf ''failed to get attributes for volume group id %q: %w'' [id'] err"
      by blast
    then show ?thesis
      by (intro exI[of _ "GetVolumeByID_call volID (Inr vol) # R"]) (auto split: option.splits)
  qed
qed

lemma GetVolumeGroup_cases:
  assumes run: "GetVolumeGroup B id' drv creds (w, []) = ((g, e), (w', tr))"
  obtains
    (init_failed) err where "g = None"
      "e = Some (Wrapf ''failed to initialize volume group with id %q: %w'' [id'] err)"
      "tr = [initCommonVolumeGroup_call id' (Some err)]"
  | (not_found) err where "errors_Is err ErrRBDGroupNotFound"
      "g = Some \<lparr>vg_id = id', volumes = [], volumesToFree = []\<rparr>" "e = Some err"
      "tr = [initCommonVolumeGroup_call id' None, getVolumeGroupAttributes_call id' (Inl err),
             rbd_ErrorLog ''returning empty volume group'']"
  | (attributes_failed) err where "\<not> errors_Is err ErrRBDGroupNotFound" "g = None"
      "e = Some (Wrapf ''failed to get volume attributes for id %q: %w'' [] err)"
      "tr = [initCommonVolumeGroup_call id' None, getVolumeGroupAttributes_call id' (Inl err)]"
  | (resolve_failed) m R i err where "\<forall>ev \<in> set R. is_resolution ev" "g = None"
      "e = Some (Wrapf ''failed to get attributes for volume group id %q: %w'' [id'] err)"
      "tr = [initCommonVolumeGroup_call id' None, getVolumeGroupAttributes_call id' (Inr m)] @ R @
            [GetVolumeByID_call i (Inl err)] @ map Volume_Destroy_call (resolved R)"
  | (loaded) m R where "\<forall>ev \<in> set R. is_resolution ev"
      "g = Some \<lparr>vg_id = id', volumes = resolved R, volumesToFree = resolved R\<rparr>" "e = None"
      "tr = [initCommonVolumeGroup_call id' None, getVolumeGroupAttributes_call id' (Inr m)] @ R @
            [rbd_DebugLog ''GetVolumeGroup returns'']"
proof -
  obtain r1 w1 where o1: "initCommonVolumeGroup_op B id' drv creds w = (r1, w1)" by fastforce
  obtain r2 w2 where o2: "getVolumeGroupAttributes_op B id' w1 = (r2, w2)" by fastforce
  show thesis
  proof (cases r1)
    case (Some err)
    with run o1 show thesis by (intro init_failed[of err]) (auto simp: GetVolumeGroup_def)
  next
    case n1: None
    show thesis
    proof (cases r2)
      case (Inl err)
      with run o1 n1 o2 show thesis
        by (cases "errors_Is err ErrRBDGroupNotFound")
           (auto simp: GetVolumeGroup_def intro: not_found[of err] attributes_failed[of err])
    next
      case (Inr m)
      let ?tr0 = "[initCommonVolumeGroup_call id' None, getVolumeGroupAttributes_call id' (Inr m)]"
      obtain e3 vols w3 tr3 where
        o3: "resolve_volumes B id' (map fst m) [] (w2, ?tr0) = ((e3, vols), (w3, tr3))"
        by (metis prod.exhaust)
      from resolve_volumes_run[OF o3] obtain R where
        R: "\<forall>ev \<in> set R. is_resolution ev" "vols = resolved R" and
        t: "case e3 of
              None \<Rightarrow> tr3 = ?tr0 @ R
            | Some x \<Rightarrow> \<exists>i err. tr3 = ?tr0 @ R @ [GetVolumeByID_call i (Inl err)] \<and>
                x = Wrapf ''failed to get attributes for volume group id %q: %w'' [id'] err"
        by auto
      show thesis
      proof (cases e3)
        case None
        with run o1 n1 o2 Inr o3 R t show thesis
          by (intro loaded[of R m])
             (auto simp: GetVolumeGroup_def GetVolumeGroup_deferred_def Let_def
                   dest!: destroy_volumes_run split: if_splits)
      next
        case (Some x)
        with t obtain i err where
          x: "tr3 = ?tr0 @ R @ [GetVolumeByID_call i (Inl err)]"
             "x = Wrapf ''failed to get attributes for volume group id %q: %w'' [id'] err"
          by auto
        with run o1 n1 o2 Inr o3 R Some show thesis
          by (intro resolve_failed[of R err m i])
             (auto simp: GetVolumeGroup_def GetVolumeGroup_deferred_def Let_def
                   dest!: destroy_volumes_run)
      qed
    qed
  qed
qed


lemma resolutions_only:
  "\<forall>ev \<in> set R. is_resolution ev \<Longrightarrow> getVolumeGroupAttributes_call i r \<notin> set R \<and>
     GetVolumeByID_call j (Inl err) \<notin> set R \<and> initCommonVolumeGroup_call k x \<notin> set R"
  by (induction R) auto

lemma GetVolumeGroup_loaded:
  assumes run: "GetVolumeGroup B id' drv creds (w, []) = ((Some vg, e), (w', tr))"
  shows "destroyed tr = [] \<and> volumes vg = resolved tr \<and> volumesToFree vg = resolved tr"
  using run
proof (cases rule: GetVolumeGroup_cases)
  case (loaded m R)
  with resolutions_not_destroyed[OF loaded(1)] show ?thesis
    by (auto simp: resolved_append destroyed_append)
qed simp_all

subsection \<open>Loading a group\<close>

text \<open>
  Claim C6. When the backend reports that the group does not exist, \<^verbatim>\<open>GetVolumeGroup\<close>
  returns a group object with no volumes together with that NotFound error, having
  resolved and destroyed nothing. Every other failure returns no group: a failed
  initialisation, a failure to read the attributes that is not NotFound, and a volume
  identifier that does not resolve, each with its wrapped error. So a group that comes
  with an error is the empty group and the error is NotFound. Whenever it returns no
  group, it returns an error and the handles it destroyed are exactly the handles it had
  resolved in this call, each once and in the order resolved. When it returns a group, it
  destroyed nothing, and the group's volumes and the volumes it has to free are the
  handles resolved.
\<close>

theorem GetVolumeGroup_not_found_or_released:
  assumes run: "GetVolumeGroup B id' drv creds (w, []) = ((g, e), (w', tr))"
  shows "(\<forall>err. getVolumeGroupAttributes_call id' (Inl err) \<in> set tr \<and>
                errors_Is err ErrRBDGroupNotFound \<longrightarrow>
            g = Some \<lparr>vg_id = id', volumes = [], volumesToFree = []\<rparr> \<and> e = Some err \<and>
            resolved tr = [] \<and> destroyed tr = []) \<and>
         (\<forall>i err. GetVolumeByID_call i (Inl err) \<in> set tr \<longrightarrow>
            g = None \<and>
            e = Some (Wrapf ''failed to get attributes for volume group id %q: %w'' [id'] err)) \<and>
         (\<forall>err. initCommonVolumeGroup_call id' (Some err) \<in> set tr \<longrightarrow>
            g = None \<and>
            e = Some (Wrapf ''failed to initialize volume group with id %q: %w'' [id'] err) \<and>
            tr = [initCommonVolumeGroup_call id' (Some err)]) \<and>
         (\<forall>err. getVolumeGroupAttributes_call id' (Inl err) \<in> set tr \<and>
                \<not> errors_Is err ErrRBDGroupNotFound \<longrightarrow>
            g = None \<and>
            e = Some (Wrapf ''failed to get volume attributes for id %q: %w'' [] err) \<and>
            resolved tr = [] \<and> destroyed tr = []) \<and>
         (\<forall>vg err. g = Some vg \<and> e = Some err \<longrightarrow>
            errors_Is err ErrRBDGroupNotFound \<and>
            vg = \<lparr>vg_id = id', volumes = [], volumesToFree = []\<rparr>) \<and>
         (g = None \<longrightarrow> e \<noteq> None \<and> destroyed tr = resolved tr) \<and>
         (\<forall>vg. g = Some vg \<longrightarrow>
            destroyed tr = [] \<and> volumes vg = resolved tr \<and> volumesToFree vg = resolved tr)"
  using run
proof (cases rule: GetVolumeGroup_cases)
  case (init_failed err)
  then show ?thesis by simp
next
  case (not_found err)
  then show ?thesis by simp
next
  case (attributes_failed err)
  then show ?thesis by auto
next
  case (resolve_failed m R i err)
  with resolutions_only[OF resolve_failed(1)] resolutions_not_destroyed[OF resolve_failed(1)]
  show ?thesis
    by (auto simp: resolved_append destroyed_append destroyed_map_destroy resolved_map_destroy)
next
  case (loaded m R)
  with resolutions_only[OF loaded(1)] resolutions_not_destroyed[OF loaded(1)]
  show ?thesis
    by (auto simp: resolved_append destroyed_append)
qed

lemmas rbd_demo_defs = demo_rbd_def injected_def vol_a_def vol_b_def vol_c_def vol_a'_def
  rbd_world0_def group_ab_def image_snap_def id_of_def

text \<open>
  A group that does not exist, a group whose second volume does not resolve, a group
  whose attributes cannot be read, and a group that cannot be initialised.
\<close>

theorem GetVolumeGroup_not_found_or_released_witness:
  "GetVolumeGroup (demo_rbd [vol_a, vol_b] [] []) ''vg-1'' ''drv'' ''cr''
       (rbd_world0\<lparr>group_exists := False\<rparr>, []) =
     ((Some \<lparr>vg_id = ''vg-1'', volumes = [], volumesToFree = []\<rparr>, Some ErrRBDGroupNotFound),
      (rbd_world0\<lparr>group_exists := False\<rparr>,
       [initCommonVolumeGroup_call ''vg-1'' None,
        getVolumeGroupAttributes_call ''vg-1'' (Inl ErrRBDGroupNotFound),
        rbd_ErrorLog ''returning empty volume group''])) \<and>
   errors_Is ErrRBDGroupNotFound ErrRBDGroupNotFound \<and>
   GetVolumeGroup (demo_rbd [vol_a, vol_b] [] [''id-b'']) ''vg-1'' ''drv'' ''cr'' (rbd_world0, []) =
     ((None, Some (Wrapf ''failed to get attributes for volume group id %q: %w'' [''vg-1'']
                     (Other ''id-b''))),
      (rbd_world0,
       [initCommonVolumeGroup_call ''vg-1'' None,
        getVolumeGroupAttributes_call ''vg-1'' (Inr [(''id-a'', []), (''id-b'', [])]),
        GetVolumeByID_call ''id-a'' (Inr vol_a),
        GetVolumeByID_call ''id-b'' (Inl (Other ''id-b'')),
        Volume_Destroy_call vol_a])) \<and>
   destroyed [initCommonVolumeGroup_call ''vg-1'' None,
        getVolumeGroupAttributes_call ''vg-1'' (Inr [(''id-a'', []), (''id-b'', [])]),
        GetVolumeByID_call ''id-a'' (Inr vol_a),
        GetVolumeByID_call ''id-b'' (Inl (Other ''id-b'')),
        Volume_Destroy_call vol_a] = [vol_a] \<and>
   GetVolumeGroup (demo_rbd [vol_a, vol_b] [] [''getVolumeGroupAttributes'']) ''vg-1'' ''drv'' ''cr''
       (rbd_world0, []) =
     ((None, Some (Wrapf ''failed to get volume attributes for id %q: %w'' []
                     (Other ''getVolumeGroupAttributes''))),
      (rbd_world0,
       [initCommonVolumeGroup_call ''vg-1'' None,
        getVolumeGroupAttributes_call ''vg-1'' (Inl (Other ''getVolumeGroupAttributes''))])) \<and>
   \<not> errors_Is (Other ''getVolumeGroupAttributes'') ErrRBDGroupNotFound \<and>
   resolved [initCommonVolumeGroup_call ''vg-1'' None,
        getVolumeGroupAttributes_call ''vg-1'' (Inl ErrRBDGroupNotFound),
        rbd_ErrorLog ''returning empty volume group''] = [] \<and>
   resolved [initCommonVolumeGroup_call ''vg-1'' None,
        getVolumeGroupAttributes_call ''vg-1'' (Inl (Other ''getVolumeGroupAttributes''))] = [] \<and>
   GetVolumeGroup (demo_rbd [vol_a, vol_b] [] [''initCommonVolumeGroup'']) ''vg-1'' ''drv'' ''cr''
       (rbd_world0, []) =
     ((None, Some (Wrapf ''failed to initialize volume group with id %q: %w'' [''vg-1'']
                     (Other ''initCommonVolumeGroup''))),
      (rbd_world0, [initCommonVolumeGroup_call ''vg-1'' (Some (Other ''initCommonVolumeGroup''))]))"
proof -
  have r1: "GetVolumeGroup (demo_rbd [vol_a, vol_b] [] []) ''vg-1'' ''drv'' ''cr''
       (rbd_world0\<lparr>group_exists := False\<rparr>, []) =
     ((Some \<lparr>vg_id = ''vg-1'', volumes = [], volumesToFree = []\<rparr>, Some ErrRBDGroupNotFound),
      (rbd_world0\<lparr>group_exists := False\<rparr>,
       [initCommonVolumeGroup_call ''vg-1'' None,
        getVolumeGroupAttributes_call ''vg-1'' (Inl ErrRBDGroupNotFound),
        rbd_ErrorLog ''returning empty volume group'']))"
    by code_simp
  have r2: "GetVolumeGroup (demo_rbd [vol_a, vol_b] [] [''id-b'']) ''vg-1'' ''drv'' ''cr'' (rbd_world0, []) =
     ((None, Some (Wrapf ''failed to get attributes for volume group id %q: %w'' [''vg-1'']
                     (Other ''id-b''))),
      (rbd_world0,
       [initCommonVolumeGroup_call ''vg-1'' None,
        getVolumeGroupAttributes_call ''vg-1'' (Inr [(''id-a'', []), (''id-b'', [])]),
        GetVolumeByID_call ''id-a'' (Inr vol_a),
        GetVolumeByID_call ''id-b'' (Inl (Other ''id-b'')),
        Volume_Destroy_call vol_a]))"
    by code_simp
  have r3: "GetVolumeGroup (demo_rbd [vol_a, vol_b] [] [''getVolumeGroupAttributes'']) ''vg-1'' ''drv'' ''cr''
       (rbd_world0, []) =
     ((None, Some (Wrapf ''failed to get volume attributes for id %q: %w'' []
                     (Other ''getVolumeGroupAttributes''))),
      (rbd_world0,
       [initCommonVolumeGroup_call ''vg-1'' None,
        getVolumeGroupAttributes_call ''vg-1'' (Inl (Other ''getVolumeGroupAttributes''))]))"
    by code_simp
  have r4: "GetVolumeGroup (demo_rbd [vol_a, vol_b] [] [''initCommonVolumeGroup'']) ''vg-1'' ''drv'' ''cr''
       (rbd_world0, []) =
     ((None, Some (Wrapf ''failed to initialize volume group with id %q: %w'' [''vg-1'']
                     (Other ''initCommonVolumeGroup''))),
      (rbd_world0, [initCommonVolumeGroup_call ''vg-1'' (Some (Other ''initCommonVolumeGroup''))]))"
    by code_simp
  have e: "errors_Is ErrRBDGroupNotFound ErrRBDGroupNotFound"
    "\<not> errors_Is (Other ''getVolumeGroupAttributes'') ErrRBDGroupNotFound"
    by simp_all
  note released = GetVolumeGroup_not_found_or_released[OF r2,
      THEN conjunct2, THEN conjunct2, THEN conjunct2, THEN conjunct2, THEN conjunct2,
      THEN conjunct1]
  have d: "destroyed [initCommonVolumeGroup_call ''vg-1'' None,
        getVolumeGroupAttributes_call ''vg-1'' (Inr [(''id-a'', []), (''id-b'', [])]),
        GetVolumeByID_call ''id-a'' (Inr vol_a),
        GetVolumeByID_call ''id-b'' (Inl (Other ''id-b'')),
        Volume_Destroy_call vol_a] = [vol_a]"
    using released by simp
  have h1: "resolved [initCommonVolumeGroup_call ''vg-1'' None,
        getVolumeGroupAttributes_call ''vg-1'' (Inl ErrRBDGroupNotFound),
        rbd_ErrorLog ''returning empty volume group''] = []"
    using e GetVolumeGroup_not_found_or_released[OF r1, THEN conjunct1, rule_format,
        of ErrRBDGroupNotFound]
    by simp
  have h3: "resolved [initCommonVolumeGroup_call ''vg-1'' None,
        getVolumeGroupAttributes_call ''vg-1'' (Inl (Other ''getVolumeGroupAttributes''))] = []"
    using e GetVolumeGroup_not_found_or_released[OF r3,
        THEN conjunct2, THEN conjunct2, THEN conjunct2, THEN conjunct1, rule_format,
        of "Other ''getVolumeGroupAttributes''"]
    by simp
  from r1 r2 r3 r4 e d h1 h3 show ?thesis by blast
qed

lemma AddVolume_owned:
  assumes "AddVolume B vg v (w, tr) = ((e, vg'), (w', tr'))"
  shows "volumesToFree vg' = volumesToFree vg \<and> vg_id vg' = vg_id vg \<and> destroyed tr' = destroyed tr"
  using assms
  by (auto simp: AddVolume_def Let_def destroyed_append split: prod.splits option.splits sum.splits)

lemma RemoveVolume_owned:
  assumes "RemoveVolume B vg v (w, tr) = ((e, vg'), (w', tr'))"
  shows "volumesToFree vg' = volumesToFree vg \<and> vg_id vg' = vg_id vg \<and> destroyed tr' = destroyed tr"
  using assms
  by (auto simp: RemoveVolume_def Let_def destroyed_append
           split: prod.splits option.splits sum.splits if_splits)

lemma change_membership_owned:
  assumes "change_membership B cs vg (w, tr) = (vg', (w', tr'))"
  shows "volumesToFree vg' = volumesToFree vg \<and> vg_id vg' = vg_id vg \<and> destroyed tr' = destroyed tr"
  using assms
proof (induction cs arbitrary: vg w tr)
  case Nil
  then show ?case by simp
next
  case (Cons c cs)
  show ?case
  proof (cases c)
    case (Add v)
    obtain e vg1 w1 tr1 where a: "AddVolume B vg v (w, tr) = ((e, vg1), (w1, tr1))"
      by (metis prod.exhaust)
    with Cons.prems Add have "change_membership B cs vg1 (w1, tr1) = (vg', (w', tr'))" by simp
    from Cons.IH[OF this] AddVolume_owned[OF a] show ?thesis by simp
  next
    case (Remove v)
    obtain e vg1 w1 tr1 where a: "RemoveVolume B vg v (w, tr) = ((e, vg1), (w1, tr1))"
      by (metis prod.exhaust)
    with Cons.prems Remove have "change_membership B cs vg1 (w1, tr1) = (vg', (w', tr'))" by simp
    from Cons.IH[OF this] RemoveVolume_owned[OF a] show ?thesis by simp
  qed
qed

lemma Destroy_run:
  assumes "Destroy B vg (w, tr) = (vg', (w', tr'))"
  shows "tr' = tr @ map Volume_Destroy_call (volumesToFree vg) @ [common_Destroy_call (vg_id vg)] \<and>
         volumesToFree vg' = []"
proof (cases "volumesToFree vg")
  case Nil
  with assms show ?thesis by (auto simp: Destroy_def)
next
  case (Cons v vs)
  obtain w1 tr1 where d: "destroy_volumes B (v # vs) (w, tr) = (w1, tr1)" by fastforce
  from destroy_volumes_run[OF d] have "tr1 = tr @ map Volume_Destroy_call (v # vs)" .
  with assms Cons d show ?thesis by (auto simp: Destroy_def)
qed

subsection \<open>Ownership of the volume handles\<close>

text \<open>
  Claim C7. Load a group, let the caller add and remove volumes in any sequence (whatever
  each call returns), then destroy the group. \<^verbatim>\<open>Destroy\<close> releases exactly the handles
  that \<^verbatim>\<open>GetVolumeGroup\<close> resolved, each once; neither the load nor the membership
  changes release any handle; the list of handles to free is the same after the changes
  and empty after the destruction; and a handle the caller added that is not one of the
  resolved ones is never released.
\<close>

theorem Destroy_releases_resolved_only:
  assumes load: "GetVolumeGroup B id' drv creds (w0, []) = ((Some vg, e), (w1, tr1))"
      and changes: "change_membership B cs vg (w1, []) = (vg', (w2, tr2))"
      and destroy: "Destroy B vg' (w2, []) = (vg'', (w3, tr3))"
  shows "destroyed tr3 = resolved tr1 \<and> destroyed tr1 = [] \<and> destroyed tr2 = [] \<and>
         volumesToFree vg' = resolved tr1 \<and> volumesToFree vg'' = [] \<and>
         (\<forall>v. Add v \<in> set cs \<and> v \<notin> set (resolved tr1) \<longrightarrow> v \<notin> set (destroyed (tr1 @ tr2 @ tr3)))"
proof -
  from GetVolumeGroup_loaded[OF load]
  have l: "destroyed tr1 = []" "volumesToFree vg = resolved tr1" by simp_all
  from change_membership_owned[OF changes] l
  have c: "volumesToFree vg' = resolved tr1" "destroyed tr2 = []" by simp_all
  from Destroy_run[OF destroy] c
  have d: "destroyed tr3 = resolved tr1" "volumesToFree vg'' = []"
    by (simp_all add: destroyed_append destroyed_map_destroy)
  from l c d show ?thesis by (simp add: destroyed_append)
qed


text \<open>
  A group loaded with two volumes, to which the caller adds a third volume, removes the
  first through a handle of its own, and adds that handle.
\<close>

theorem Destroy_releases_resolved_only_witness:
  "GetVolumeGroup (demo_rbd [vol_a, vol_b] [] []) ''vg-1'' ''drv'' ''cr'' (rbd_world0, []) =
     ((Some group_ab, None),
      (rbd_world0,
       [initCommonVolumeGroup_call ''vg-1'' None,
        getVolumeGroupAttributes_call ''vg-1'' (Inr [(''id-a'', []), (''id-b'', [])]),
        GetVolumeByID_call ''id-a'' (Inr vol_a),
        GetVolumeByID_call ''id-b'' (Inr vol_b),
        rbd_DebugLog ''GetVolumeGroup returns''])) \<and>
   destroyed (snd (snd (Destroy (demo_rbd [vol_a, vol_b] [] [])
     (fst (change_membership (demo_rbd [vol_a, vol_b] [] [])
             [Add vol_c, Remove vol_a', Add vol_a'] group_ab (rbd_world0, [])))
     (fst (snd (change_membership (demo_rbd [vol_a, vol_b] [] [])
             [Add vol_c, Remove vol_a', Add vol_a'] group_ab (rbd_world0, []))), [])))) =
     [vol_a, vol_b]"
proof -
  have r1: "GetVolumeGroup (demo_rbd [vol_a, vol_b] [] []) ''vg-1'' ''drv'' ''cr'' (rbd_world0, []) =
     ((Some group_ab, None),
      (rbd_world0,
       [initCommonVolumeGroup_call ''vg-1'' None,
        getVolumeGroupAttributes_call ''vg-1'' (Inr [(''id-a'', []), (''id-b'', [])]),
        GetVolumeByID_call ''id-a'' (Inr vol_a),
        GetVolumeByID_call ''id-b'' (Inr vol_b),
        rbd_DebugLog ''GetVolumeGroup returns'']))"
    by code_simp
  from Destroy_releases_resolved_only[OF r1, of "[Add vol_c, Remove vol_a', Add vol_a']"
      "fst (change_membership (demo_rbd [vol_a, vol_b] [] [])
             [Add vol_c, Remove vol_a', Add vol_a'] group_ab (rbd_world0, []))"
      "fst (snd (change_membership (demo_rbd [vol_a, vol_b] [] [])
             [Add vol_c, Remove vol_a', Add vol_a'] group_ab (rbd_world0, [])))"
      "snd (snd (change_membership (demo_rbd [vol_a, vol_b] [] [])
             [Add vol_c, Remove vol_a', Add vol_a'] group_ab (rbd_world0, [])))"
      "fst (Destroy (demo_rbd [vol_a, vol_b] [] [])
     (fst (change_membership (demo_rbd [vol_a, vol_b] [] [])
             [Add vol_c, Remove vol_a', Add vol_a'] group_ab (rbd_world0, [])))
     (fst (snd (change_membership (demo_rbd [vol_a, vol_b] [] [])
             [Add vol_c, Remove vol_a', Add vol_a'] group_ab (rbd_world0, []))), []))"
      "fst (snd (Destroy (demo_rbd [vol_a, vol_b] [] [])
     (fst (change_membership (demo_rbd [vol_a, vol_b] [] [])
             [Add vol_c, Remove vol_a', Add vol_a'] group_ab (rbd_world0, [])))
     (fst (snd (change_membership (demo_rbd [vol_a, vol_b] [] [])
             [Add vol_c, Remove vol_a', Add vol_a'] group_ab (rbd_world0, []))), [])))"
      "snd (snd (Destroy (demo_rbd [vol_a, vol_b] [] [])
     (fst (change_membership (demo_rbd [vol_a, vol_b] [] [])
             [Add vol_c, Remove vol_a', Add vol_a'] group_ab (rbd_world0, [])))
     (fst (snd (change_membership (demo_rbd [vol_a, vol_b] [] [])
             [Add vol_c, Remove vol_a', Add vol_a'] group_ab (rbd_world0, []))), [])))"]
  have "destroyed (snd (snd (Destroy (demo_rbd [vol_a, vol_b] [] [])
     (fst (change_membership (demo_rbd [vol_a, vol_b] [] [])
             [Add vol_c, Remove vol_a', Add vol_a'] group_ab (rbd_world0, [])))
     (fst (snd (change_membership (demo_rbd [vol_a, vol_b] [] [])
             [Add vol_c, Remove vol_a', Add vol_a'] group_ab (rbd_world0, []))), [])))) =
     [vol_a, vol_b]"
    by simp
  with r1 show ?thesis by simp
qed

lemma volumes_without_run:
  assumes "volumes_without i vs acc = Inr r"
  shows "r = acc @ filter (\<lambda>u. GetID u \<noteq> Inr i) vs"
  using assms
proof (induction vs arbitrary: acc)
  case Nil
  then show ?case by simp
next
  case (Cons a vs)
  show ?case
  proof (cases "GetID a")
    case (Inl err)
    with Cons.prems show ?thesis by simp
  next
    case (Inr x)
    show ?thesis
    proof (cases "x = i")
      case True
      with Cons.prems Inr Cons.IH[of acc] show ?thesis by simp
    next
      case False
      with Cons.prems Inr Cons.IH[of "acc @ [a]"] show ?thesis by simp
    qed
  qed
qed

lemma RemoveVolume_cases:
  assumes run: "RemoveVolume B vg v (w, []) = ((e, vg'), (w', tr))"
  obtains
    (empty) "volumes vg = []" "e = None" "vg' = vg" "w' = w" "tr = []"
  | (tolerated) err where "volumes vg \<noteq> []" "errors_Is err librbd_ErrNotExist"
      "e = None" "vg' = vg" "tr = [RemoveFromGroup_call v (vg_id vg) (Some err)]"
  | (failed) "volumes vg \<noteq> []" "e \<noteq> None" "RemoveFromGroup_call v (vg_id vg) None \<notin> set tr \<or>
      journal_calls tr = [] \<or> (\<exists>p u m x. journal_calls tr = [RemoveVolumesMapping_call p u m (Some x)])"
  | (removed) i pool uuid where "volumes vg \<noteq> []" "e = None" "GetID v = Inr i"
      "vg' = vg\<lparr>volumes := filter (\<lambda>u. GetID u \<noteq> Inr i) (volumes vg)\<rparr>"
      "RemoveFromGroup_call v (vg_id vg) None \<in> set tr"
      "journal_calls tr = [RemoveVolumesMapping_call pool uuid [i] None]"
proof (cases "volumes vg = []")
  case True
  with run show thesis by (intro empty) (auto simp: RemoveVolume_def)
next
  case ne: False
  obtain r1 w1 where o1: "RemoveFromGroup_op B v (vg_id vg) w = (r1, w1)" by fastforce
  show thesis
  proof (cases r1)
    case (Some err)
    with run ne o1 show thesis
      by (cases "errors_Is err librbd_ErrNotExist")
         (auto simp: RemoveVolume_def intro: tolerated[of err] failed)
  next
    case n1: None
    show thesis
    proof (cases "GetID v")
      case (Inl err)
      with run ne o1 n1 show thesis by (intro failed) (auto simp: RemoveVolume_def)
    next
      case i: (Inr toRemove)
      show thesis
      proof (cases "volumes_without toRemove (volumes vg) []")
        case (Inl err)
        with run ne o1 n1 i show thesis by (intro failed) (auto simp: RemoveVolume_def)
      next
        case vw: (Inr vols)
        from volumes_without_run[OF vw]
        have vols: "vols = filter (\<lambda>u. GetID u \<noteq> Inr toRemove) (volumes vg)" by simp
        obtain r2 w2 where o2: "vg_GetPool_op B (vg_id vg) w1 = (r2, w2)" by fastforce
        obtain r3 w3 where o3: "vg_GetID_op B (vg_id vg) w2 = (r3, w3)" by fastforce
        obtain r4 w4 where o4: "getJournal_op B (vg_id vg) w3 = (r4, w4)" by fastforce
        show thesis
        proof (cases r2)
          case (Inl err)
          with run ne o1 n1 i vw o2 show thesis
            by (intro failed) (auto simp: RemoveVolume_def Let_def)
        next
          case p: (Inr pool)
          show thesis
          proof (cases r3)
            case (Inl err)
            with run ne o1 n1 i vw o2 p o3 show thesis
              by (intro failed) (auto simp: RemoveVolume_def Let_def)
          next
            case g: (Inr gid)
            show thesis
            proof (cases "DecomposeCSIID_op B gid")
              case (Inl err)
              with run ne o1 n1 i vw o2 p o3 g show thesis
                by (intro failed) (auto simp: RemoveVolume_def Let_def)
            next
              case u: (Inr uuid)
              show thesis
              proof (cases r4)
                case (Inl err)
                with run ne o1 n1 i vw o2 p o3 g u o4 show thesis
                  by (intro failed) (auto simp: RemoveVolume_def Let_def)
              next
                case j: (Inr jn)
                obtain r5 w5 where
                  o5: "RemoveVolumesMapping_op B jn pool uuid [toRemove] w4 = (r5, w5)"
                  by fastforce
                show thesis
                proof (cases r5)
                  case (Some err)
                  with run ne o1 n1 i vw o2 p o3 g u o4 j o5 show thesis
                    by (intro failed) (auto simp: RemoveVolume_def Let_def)
                next
                  case None
                  with run ne o1 n1 i vw vols o2 p o3 g u o4 j o5 show thesis
                    by (intro removed[of toRemove pool uuid]) (auto simp: RemoveVolume_def Let_def)
                qed
              qed
            qed
          qed
        qed
      qed
    qed
  qed
qed

lemma AddVolume_success:
  assumes run: "AddVolume B vg v (w, []) = ((None, vg'), (w', tr))"
  shows "\<exists>i pool uuid. GetID v = Inr i \<and> vg' = vg\<lparr>volumes := volumes vg @ [v]\<rparr> \<and>
           AddToGroup_call v (vg_id vg) None \<in> set tr \<and>
           journal_calls tr = [AddVolumesMapping_call pool uuid [(i, [])] None]"
proof -
  obtain r1 w1 where o1: "AddToGroup_op B v (vg_id vg) w = (r1, w1)" by fastforce
  obtain r2 w2 where o2: "vg_GetPool_op B (vg_id vg) w1 = (r2, w2)" by fastforce
  obtain r3 w3 where o3: "vg_GetID_op B (vg_id vg) w2 = (r3, w3)" by fastforce
  obtain r4 w4 where o4: "getJournal_op B (vg_id vg) w3 = (r4, w4)" by fastforce
  from run o1 obtain n1: "r1 = None" by (cases r1) (auto simp: AddVolume_def)
  from run o1 n1 obtain i where i: "GetID v = Inr i"
    by (cases "GetID v") (auto simp: AddVolume_def Let_def)
  from run o1 n1 i o2 obtain pool where p: "r2 = Inr pool"
    by (cases r2) (auto simp: AddVolume_def Let_def)
  from run o1 n1 i o2 p o3 obtain gid where g: "r3 = Inr gid"
    by (cases r3) (auto simp: AddVolume_def Let_def)
  from run o1 n1 i o2 p o3 g obtain uuid where u: "DecomposeCSIID_op B gid = Inr uuid"
    by (cases "DecomposeCSIID_op B gid") (auto simp: AddVolume_def Let_def)
  from run o1 n1 i o2 p o3 g u o4 obtain jn where j: "r4 = Inr jn"
    by (cases r4) (auto simp: AddVolume_def Let_def)
  obtain r5 w5 where o5: "AddVolumesMapping_op B jn pool uuid [(i, [])] w4 = (r5, w5)" by fastforce
  from run o1 n1 i o2 p o3 g u o4 j o5 have n5: "r5 = None"
    by (cases r5) (auto simp: AddVolume_def Let_def)
  from run o1 n1 i o2 p o3 g u o4 j o5 n5 show ?thesis
    by (intro exI[of _ i] exI[of _ pool] exI[of _ uuid]) (auto simp: AddVolume_def Let_def)
qed

subsection \<open>Removing a volume\<close>

text \<open>
  Claim C8 as stated fails, in two ways. \<^verbatim>\<open>RemoveVolume\<close> drops every member that
  has the identifier of the volume: the group has the members \<open>id-a\<close> and \<open>id-b\<close>,
  the caller adds a handle of its own for \<open>id-a\<close> and removes it again, both calls
  succeed, and the group is left with \<open>id-b\<close> alone. And when the backend reports the
  volume as already removed, \<^verbatim>\<open>RemoveVolume\<close> returns success before it rebuilds the
  members: \<open>id-c\<close> is added, its removal succeeds, and \<open>id-c\<close> is still a member and
  still in the journal.
\<close>

theorem add_then_remove_counterexample:
  "fst (fst (AddVolume (demo_rbd [vol_a, vol_b] [] []) group_ab vol_a' (rbd_world0, []))) = None \<and>
   fst (fst (RemoveVolume (demo_rbd [vol_a, vol_b] [] []) (snd (fst (AddVolume (demo_rbd [vol_a, vol_b] [] []) group_ab vol_a' (rbd_world0, [])))) vol_a' (fst (snd (AddVolume (demo_rbd [vol_a, vol_b] [] []) group_ab vol_a' (rbd_world0, []))), []))) = None \<and>
   map GetID (volumes (snd (fst (RemoveVolume (demo_rbd [vol_a, vol_b] [] []) (snd (fst (AddVolume (demo_rbd [vol_a, vol_b] [] []) group_ab vol_a' (rbd_world0, [])))) vol_a' (fst (snd (AddVolume (demo_rbd [vol_a, vol_b] [] []) group_ab vol_a' (rbd_world0, []))), []))))) = [Inr ''id-b''] \<and>
   map GetID (volumes group_ab) = [Inr ''id-a'', Inr ''id-b''] \<and>
   fst (fst (AddVolume (demo_rbd [vol_a, vol_b] [] [''RemoveFromGroup'']) group_ab vol_c (rbd_world0, []))) = None \<and>
   fst (fst (RemoveVolume (demo_rbd [vol_a, vol_b] [] [''RemoveFromGroup'']) (snd (fst (AddVolume (demo_rbd [vol_a, vol_b] [] [''RemoveFromGroup'']) group_ab vol_c (rbd_world0, [])))) vol_c (fst (snd (AddVolume (demo_rbd [vol_a, vol_b] [] [''RemoveFromGroup'']) group_ab vol_c (rbd_world0, []))), []))) = None \<and>
   map GetID (volumes (snd (fst (RemoveVolume (demo_rbd [vol_a, vol_b] [] [''RemoveFromGroup'']) (snd (fst (AddVolume (demo_rbd [vol_a, vol_b] [] [''RemoveFromGroup'']) group_ab vol_c (rbd_world0, [])))) vol_c (fst (snd (AddVolume (demo_rbd [vol_a, vol_b] [] [''RemoveFromGroup'']) group_ab vol_c (rbd_world0, []))), []))))) = [Inr ''id-a'', Inr ''id-b'', Inr ''id-c''] \<and>
   map fst (journal (fst (snd (RemoveVolume (demo_rbd [vol_a, vol_b] [] [''RemoveFromGroup'']) (snd (fst (AddVolume (demo_rbd [vol_a, vol_b] [] [''RemoveFromGroup'']) group_ab vol_c (rbd_world0, [])))) vol_c (fst (snd (AddVolume (demo_rbd [vol_a, vol_b] [] [''RemoveFromGroup'']) group_ab vol_c (rbd_world0, []))), []))))) = [''id-a'', ''id-b'', ''id-c'']"
  by code_simp

text \<open>
  Claim C8, as amended. \<^verbatim>\<open>RemoveVolume\<close> on a group without members returns success
  and does nothing. When the backend reports the volume as not in the group, it returns
  success and leaves the members and the journal as they are. When the backend removed
  the volume and the call succeeds, the members are the former members without those
  that have the identifier of the volume, and the one journal call made removes the
  mapping of that identifier. So a successful \<^verbatim>\<open>AddVolume\<close> of a volume whose
  identifier no member has, followed by a successful \<^verbatim>\<open>RemoveVolume\<close> in which the
  backend removed the volume, restores the list of members; the journal saw the mapping
  of the identifier added by the first call and removed by the second, and nothing else.
\<close>

theorem RemoveVolume_undoes_AddVolume:
  "(volumes vg = [] \<longrightarrow> RemoveVolume B vg v \<sigma> = ((None, vg), \<sigma>)) \<and>
   (volumes vg \<noteq> [] \<and> RemoveFromGroup_op B v (vg_id vg) w = (Some err, w1) \<and>
    errors_Is err librbd_ErrNotExist \<longrightarrow>
      RemoveVolume B vg v (w, []) =
        ((None, vg), (w1, [RemoveFromGroup_call v (vg_id vg) (Some err)]))) \<and>
   (RemoveVolume B vg v (w, []) = ((None, vg'), (w', tr)) \<and>
    RemoveFromGroup_call v (vg_id vg) None \<in> set tr \<longrightarrow>
      (\<exists>i pool uuid. GetID v = Inr i \<and>
         volumes vg' = filter (\<lambda>u. GetID u \<noteq> Inr i) (volumes vg) \<and>
         journal_calls tr = [RemoveVolumesMapping_call pool uuid [i] None])) \<and>
   (AddVolume B vg v (w, []) = ((None, vg1), (u1, tr1)) \<and>
    RemoveVolume B vg1 v (u1, []) = ((None, vg2), (u2, tr2)) \<and>
    RemoveFromGroup_call v (vg_id vg) None \<in> set tr2 \<and>
    GetID v \<notin> GetID ` set (volumes vg) \<longrightarrow>
      volumes vg2 = volumes vg \<and>
      (\<exists>i p q p' q'. GetID v = Inr i \<and>
         journal_calls tr1 = [AddVolumesMapping_call p q [(i, [])] None] \<and>
         journal_calls tr2 = [RemoveVolumesMapping_call p' q' [i] None]))"
proof -
  have p1: "RemoveVolume B vg v \<sigma> = ((None, vg), \<sigma>)" if "volumes vg = []"
    using that by (simp add: RemoveVolume_def)
  have p2: "RemoveVolume B vg v (w, []) =
        ((None, vg), (w1, [RemoveFromGroup_call v (vg_id vg) (Some err)]))"
    if "volumes vg \<noteq> [] \<and> RemoveFromGroup_op B v (vg_id vg) w = (Some err, w1) \<and>
        errors_Is err librbd_ErrNotExist"
    using that by (simp add: RemoveVolume_def)
  have p3: "\<exists>i pool uuid. GetID v = Inr i \<and>
         volumes vg' = filter (\<lambda>u. GetID u \<noteq> Inr i) (volumes vg) \<and>
         journal_calls tr = [RemoveVolumesMapping_call pool uuid [i] None]"
    if a: "RemoveVolume B vg v (w, []) = ((None, vg'), (w', tr)) \<and>
           RemoveFromGroup_call v (vg_id vg) None \<in> set tr"
  proof -
    from a have run: "RemoveVolume B vg v (w, []) = ((None, vg'), (w', tr))" by simp
    from run a show ?thesis by (cases rule: RemoveVolume_cases) auto
  qed
  have p4: "volumes vg2 = volumes vg \<and>
      (\<exists>i p q p' q'. GetID v = Inr i \<and>
         journal_calls tr1 = [AddVolumesMapping_call p q [(i, [])] None] \<and>
         journal_calls tr2 = [RemoveVolumesMapping_call p' q' [i] None])"
    if a: "AddVolume B vg v (w, []) = ((None, vg1), (u1, tr1)) \<and>
           RemoveVolume B vg1 v (u1, []) = ((None, vg2), (u2, tr2)) \<and>
           RemoveFromGroup_call v (vg_id vg) None \<in> set tr2 \<and>
           GetID v \<notin> GetID ` set (volumes vg)"
  proof -
    from a have add: "AddVolume B vg v (w, []) = ((None, vg1), (u1, tr1))"
      and rem: "RemoveVolume B vg1 v (u1, []) = ((None, vg2), (u2, tr2))"
      and fresh: "GetID v \<notin> GetID ` set (volumes vg)" by simp_all
    from AddVolume_success[OF add] obtain i p q where
      i: "GetID v = Inr i" and vg1: "vg1 = vg\<lparr>volumes := volumes vg @ [v]\<rparr>" and
      j1: "journal_calls tr1 = [AddVolumesMapping_call p q [(i, [])] None]"
      by blast
    from fresh i have keep: "filter (\<lambda>u. GetID u \<noteq> Inr i) (volumes vg) = volumes vg"
      by (force simp: filter_id_conv image_iff)
    from rem show ?thesis
    proof (cases rule: RemoveVolume_cases)
      case (removed i' pool uuid)
      with i vg1 keep j1 show ?thesis by auto
    next
      case (tolerated err)
      with a vg1 show ?thesis by auto
    qed (use vg1 in auto)
  qed
  from p1 p2 p3 p4 show ?thesis by blast
qed

text \<open>A third volume added to a group of two and removed again.\<close>

theorem RemoveVolume_undoes_AddVolume_witness:
  "AddVolume (demo_rbd [vol_a, vol_b] [] []) group_ab vol_c (rbd_world0, []) =
     ((None, group_ab\<lparr>volumes := [vol_a, vol_b, vol_c]\<rparr>),
      (rbd_world0\<lparr>group_images := [''id-c'', ''id-a'', ''id-b''],
                  journal := [(''id-a'', []), (''id-b'', []), (''id-c'', [])]\<rparr>,
       [AddToGroup_call vol_c ''vg-1'' None,
        vg_GetPool_call ''vg-1'' (Inr ''pool-1''),
        vg_GetID_call ''vg-1'' (Inr ''vg-1''), getJournal_call ''vg-1'' (Inr 1),
        AddVolumesMapping_call ''pool-1'' ''uuid-of-vg-1'' [(''id-c'', [])] None])) \<and>
   RemoveVolume (demo_rbd [vol_a, vol_b] [] []) (group_ab\<lparr>volumes := [vol_a, vol_b, vol_c]\<rparr>) vol_c
     (rbd_world0\<lparr>group_images := [''id-c'', ''id-a'', ''id-b''],
                 journal := [(''id-a'', []), (''id-b'', []), (''id-c'', [])]\<rparr>, []) =
     ((None, group_ab),
      (rbd_world0,
       [RemoveFromGroup_call vol_c ''vg-1'' None,
        vg_GetPool_call ''vg-1'' (Inr ''pool-1''),
        vg_GetID_call ''vg-1'' (Inr ''vg-1''), getJournal_call ''vg-1'' (Inr 1),
        RemoveVolumesMapping_call ''pool-1'' ''uuid-of-vg-1'' [''id-c''] None])) \<and>
   GetID vol_c \<notin> GetID ` set (volumes group_ab) \<and>
   volumes group_ab = [vol_a, vol_b] \<and>
   map fst (journal rbd_world0) = [''id-a'', ''id-b'']"
proof -
  have r1: "AddVolume (demo_rbd [vol_a, vol_b] [] []) group_ab vol_c (rbd_world0, []) =
     ((None, group_ab\<lparr>volumes := [vol_a, vol_b, vol_c]\<rparr>),
      (rbd_world0\<lparr>group_images := [''id-c'', ''id-a'', ''id-b''],
                  journal := [(''id-a'', []), (''id-b'', []), (''id-c'', [])]\<rparr>,
       [AddToGroup_call vol_c ''vg-1'' None,
        vg_GetPool_call ''vg-1'' (Inr ''pool-1''),
        vg_GetID_call ''vg-1'' (Inr ''vg-1''), getJournal_call ''vg-1'' (Inr 1),
        AddVolumesMapping_call ''pool-1'' ''uuid-of-vg-1'' [(''id-c'', [])] None]))"
    by code_simp
  have r2: "RemoveVolume (demo_rbd [vol_a, vol_b] [] []) (group_ab\<lparr>volumes := [vol_a, vol_b, vol_c]\<rparr>) vol_c
     (rbd_world0\<lparr>group_images := [''id-c'', ''id-a'', ''id-b''],
                 journal := [(''id-a'', []), (''id-b'', []), (''id-c'', [])]\<rparr>, []) =
     ((None, group_ab),
      (rbd_world0,
       [RemoveFromGroup_call vol_c ''vg-1'' None,
        vg_GetPool_call ''vg-1'' (Inr ''pool-1''),
        vg_GetID_call ''vg-1'' (Inr ''vg-1''), getJournal_call ''vg-1'' (Inr 1),
        RemoveVolumesMapping_call ''pool-1'' ''uuid-of-vg-1'' [''id-c''] None]))"
    by code_simp
  have f: "GetID vol_c \<notin> GetID ` set (volumes group_ab)"
    by (simp add: vol_a_def vol_b_def vol_c_def group_ab_def)
  have g: "volumes group_ab = [vol_a, vol_b]" "map fst (journal rbd_world0) = [''id-a'', ''id-b'']"
    by (simp_all add: group_ab_def rbd_world0_def)
  from RemoveVolume_undoes_AddVolume
    [where B = "demo_rbd [vol_a, vol_b] [] []" and vg = group_ab and v = vol_c and w = rbd_world0
       and ?vg1.0 = "group_ab\<lparr>volumes := [vol_a, vol_b, vol_c]\<rparr>"
       and ?u1.0 = "rbd_world0\<lparr>group_images := [''id-c'', ''id-a'', ''id-b''],
                 journal := [(''id-a'', []), (''id-b'', []), (''id-c'', [])]\<rparr>"
       and ?vg2.0 = group_ab and ?u2.0 = rbd_world0]
    r1 r2 f g
  show ?thesis by simp
qed

subsection \<open>Snapshots of a group\<close>

text \<open>
  Claim C2 at a failing input. The group snapshot holds an image snapshot \<open>img-x\<close> that
  no member matches, then those of the two members; the snapshot object for \<open>img-a\<close> is
  made, the one for \<open>img-b\<close> fails. The teardown loop starts at slot 0, which is
  \<^verbatim>\<open>nil\<close>: the function panics, the error is not returned, and the snapshot object
  made for \<open>img-a\<close> is not destroyed. The group snapshot is still removed.
\<close>

theorem CreateSnapshots_failure_panics_and_leaks:
  "CreateSnapshots
     (demo_rbd [vol_a, vol_b]
        [image_snap ''img-x'' 10, image_snap ''img-a'' 11, image_snap ''img-b'' 12] [''img-b''])
     group_ab ''cr'' ''snap-A'' (rbd_world0, []) =
   (Panic,
    (rbd_world0,
     [vg_GetName_call ''vg-1'' (Inr ''group-1''),
      vg_GetIOContext_call ''vg-1'' (Inr 7),
      GroupSnapCreate_call ''group-1'' ''snap-A'' None,
      GroupSnapGetInfo_call ''group-1'' ''snap-A''
        (Inr \<lparr>SnapName = ''snap-A'',
               Snapshots = [image_snap ''img-x'' 10, image_snap ''img-a'' 11,
                            image_snap ''img-b'' 12]\<rparr>),
      NewSnapshotByID_call vol_a ''group-1-snap-1'' 11 (Some (SnapshotHandle 11), None),
      NewSnapshotByID_call vol_b ''group-1-snap-2'' 12 (None, Some (Other ''group-1-snap-2'')),
      GroupSnapRemove_call ''group-1'' ''snap-A'' None]))"
  by code_simp

text \<open>
  Claim C10 at two failing inputs. With an image snapshot that no member matches, a
  successful call returns a slice whose first entry is \<^verbatim>\<open>nil\<close>. With two members
  and a failure at the second, the teardown loop destroys the first snapshot object and
  then calls \<^verbatim>\<open>Destroy\<close> on the \<^verbatim>\<open>nil\<close> entry of the second slot: a panic.
\<close>

theorem CreateSnapshots_nil_entries:
  "fst (CreateSnapshots
     (demo_rbd [vol_a, vol_b] [image_snap ''img-x'' 10, image_snap ''img-a'' 11] [])
     group_ab ''cr'' ''snap-A'' (rbd_world0, [])) =
     Returned ([None, Some (SnapshotHandle 11)], None) \<and>
   CreateSnapshots
     (demo_rbd [vol_a, vol_b] [image_snap ''img-a'' 11, image_snap ''img-b'' 12] [''img-b''])
     group_ab ''cr'' ''snap-A'' (rbd_world0, []) =
   (Panic,
    (rbd_world0,
     [vg_GetName_call ''vg-1'' (Inr ''group-1''),
      vg_GetIOContext_call ''vg-1'' (Inr 7),
      GroupSnapCreate_call ''group-1'' ''snap-A'' None,
      GroupSnapGetInfo_call ''group-1'' ''snap-A''
        (Inr \<lparr>SnapName = ''snap-A'',
               Snapshots = [image_snap ''img-a'' 11, image_snap ''img-b'' 12]\<rparr>),
      NewSnapshotByID_call vol_a ''group-1-snap-0'' 11 (Some (SnapshotHandle 11), None),
      NewSnapshotByID_call vol_b ''group-1-snap-1'' 12 (None, Some (Other ''group-1-snap-1'')),
      Snapshot_Destroy_call (SnapshotHandle 11),
      GroupSnapRemove_call ''group-1'' ''snap-A'' None]))"
  by code_simp

section \<open>Verification: reclaiming space\<close>

text \<open>
  Claim C9. When \<^verbatim>\<open>isInUse\<close> reports the image in use, \<^verbatim>\<open>Sparsify\<close> returns
  \<^verbatim>\<open>ErrImageInUse\<close> and its only call is that check: the image is neither opened nor
  sparsified. \<^verbatim>\<open>ControllerReclaimSpace\<close>, having taken the lock and found the volume,
  then returns the empty response with no error, after destroying the volume and the
  manager and releasing the lock.
\<close>

theorem in_use_image_is_benign_no_op:
  "(isInUse_op B ri w = ((True, None), w1) \<longrightarrow>
      Sparsify B ri (w, []) = (Returned (Some ErrImageInUse), (w1, [isInUse_call ri (True, None)]))) \<and>
   (VolumeId req \<noteq> [] \<and>
    TryAcquire_op B (VolumeId req) u = (True, u1) \<and>
    NewManager_op B drv (Secrets req) u1 = (mgr, u2) \<and>
    Manager_GetVolumeByID_op B mgr (VolumeId req) u2 = (Inr rbdVol, u3) \<and>
    isInUse_op B rbdVol u3 = ((True, None), u4) \<longrightarrow>
      ControllerReclaimSpace B drv req (u, []) =
        (Returned (Some ControllerReclaimSpaceResponse, None),
         (Release_op B (VolumeId req) (Manager_Destroy_op B mgr (rbdVol_Destroy_op B rbdVol u4)),
          [TryAcquire_call (VolumeId req) True,
           NewManager_call drv mgr,
           Manager_GetVolumeByID_call (VolumeId req) (Inr rbdVol),
           isInUse_call rbdVol (True, None),
           space_DebugLog ''volume is in use, skipping sparsify operation'',
           rbdVol_Destroy_call rbdVol,
           Manager_Destroy_call mgr,
           Release_call (VolumeId req)])))"
  by (simp add: Sparsify_def ControllerReclaimSpace_def Let_def)

text \<open>A request for a volume that is in use.\<close>

theorem in_use_image_is_benign_no_op_witness:
  "Sparsify demo_space vol_a ([], []) =
     (Returned (Some ErrImageInUse), ([], [isInUse_call vol_a (True, None)])) \<and>
   ControllerReclaimSpace demo_space ''rbd.csi.ceph.com''
       \<lparr>VolumeId = ''id-a'', Secrets = []\<rparr> ([], []) =
     (Returned (Some ControllerReclaimSpaceResponse, None),
      ([],
       [TryAcquire_call ''id-a'' True,
        NewManager_call ''rbd.csi.ceph.com'' 1,
        Manager_GetVolumeByID_call ''id-a'' (Inr vol_a),
        isInUse_call vol_a (True, None),
        space_DebugLog ''volume is in use, skipping sparsify operation'',
        rbdVol_Destroy_call vol_a,
        Manager_Destroy_call 1,
        Release_call ''id-a'']))"
  using in_use_image_is_benign_no_op
    [where B = demo_space and ri = vol_a and w = "[]" and ?w1.0 = "[]"
       and req = "\<lparr>VolumeId = ''id-a'', Secrets = []\<rparr>" and drv = "''rbd.csi.ceph.com''"
       and u = "[]" and ?u1.0 = "[''id-a'']" and mgr = 1 and ?u2.0 = "[''id-a'']"
       and rbdVol = vol_a and ?u3.0 = "[''id-a'']" and ?u4.0 = "[''id-a'']"]
  by (simp add: demo_space_def vol_a_def vol_b_def)

end
